theory Spec2Isabelle
  imports Complex_Main "HOL-Library.Word" "HOL-Library.AList"
begin

section \<open>The connection engine of provider/aufe/client.py\<close>

text \<open>
  Conventions of the embedding.
  \<^item> A Python \<open>str\<close> is represented by the bytes of its UTF-8 encoding, as a
    \<open>string\<close>; \<open>s.encode("utf-8")\<close> is then the character list itself. The patterns and
    markers of the source are ASCII, so matching on bytes and on code points agree.
  \<^item> \<open>time.time()\<close>, \<open>random.random()\<close>, the HTTP transport and \<open>aclose()\<close> are the
    outside world: each is a script indexed by the number of calls made so far, kept in
    the record \<open>world\<close>. Floats are idealised as reals; the one float operation of
    the source that raises, the power in \<open>_calculate_delay\<close>, is modelled with its
    \<open>OverflowError\<close>.
  \<^item> A Python exception is represented by its class; \<open>isinstance\<close> is the subclass
    relation. Task cancellation (a \<open>BaseException\<close>) and the background monitor task
    are concurrency and are not part of the model.
\<close>

subsection \<open>Exceptions\<close>

datatype exc_class =
    Exception
  | AUFEError
  | AUFELoginError
  | AUFEConnectionError
  | AUFETimeoutError
  | AUFEParseError
  | RequestError
  | OverflowError
  | OtherException

fun issubclass :: "exc_class \<Rightarrow> exc_class \<Rightarrow> bool" where
  "issubclass c Exception = True"
| "issubclass c AUFEError =
     (c = AUFEError \<or> c = AUFELoginError \<or> c = AUFEConnectionError
      \<or> c = AUFETimeoutError \<or> c = AUFEParseError)"
| "issubclass c d = (c = d)"

definition isinstance :: "exc_class \<Rightarrow> exc_class list \<Rightarrow> bool" where
  "isinstance e classes = list_ex (issubclass e) classes"

datatype 'a result = Return 'a | Raise exc_class

subsection \<open>RetryStrategy and RetryConfig\<close>

datatype RetryStrategy = IMMEDIATE | FIXED_DELAY | EXPONENTIAL_BACKOFF | LINEAR_BACKOFF

record RetryConfig =
  max_attempts :: int
  strategy :: RetryStrategy
  base_delay :: real
  max_delay :: real
  exponential_base :: real
  jitter :: bool
  retry_on_exceptions :: "exc_class list"

subsection \<open>Configuration\<close>

text \<open>
  The settings \<open>AUFEConfig\<close> reads from the configuration file, and the
  \<open>RetryConfig()\<close> built from them. \<open>AUFEConfig_defaults\<close> holds the defaults of
  config/models.py.
\<close>

record AUFEConfig =
  MAX_RETRIES :: int
  ACTIVITY_TIMEOUT :: real
  RETRY_BASE_DELAY :: real
  RETRY_MAX_DELAY :: real
  RETRY_EXPONENTIAL_BASE :: real
  UAAP_LOGIN_URL :: string

definition RetryConfig_default :: "AUFEConfig \<Rightarrow> RetryConfig" where
  "RetryConfig_default cfg =
     \<lparr>max_attempts = MAX_RETRIES cfg, strategy = EXPONENTIAL_BACKOFF,
      base_delay = RETRY_BASE_DELAY cfg, max_delay = RETRY_MAX_DELAY cfg,
      exponential_base = RETRY_EXPONENTIAL_BASE cfg, jitter = True,
      retry_on_exceptions = [AUFEConnectionError, AUFETimeoutError, RequestError]\<rparr>"

definition AUFEConfig_defaults :: AUFEConfig where
  "AUFEConfig_defaults =
     \<lparr>MAX_RETRIES = 3, ACTIVITY_TIMEOUT = 300, RETRY_BASE_DELAY = 1,
      RETRY_MAX_DELAY = 60, RETRY_EXPONENTIAL_BASE = 2,
      UAAP_LOGIN_URL =
        ''http://uaap-aufe-edu-cn.vpn2.aufe.edu.cn:8118/cas/login?service=http%3A%2F%2Fjwcxk2.aufe.edu.cn%2Fj_spring_cas_security_check''\<rparr>"


subsection \<open>ConnectionHealth\<close>

record ConnectionHealth =
  is_healthy :: bool
  last_error :: "exc_class option"
  error_count :: int
  last_check :: real

text \<open>\<open>ConnectionHealth.__init__\<close>; \<open>now\<close> is the value \<open>time.time()\<close> returns there.\<close>

definition init_health :: "real \<Rightarrow> ConnectionHealth" where
  "init_health now =
     \<lparr>is_healthy = True, last_error = None, error_count = 0, last_check = now\<rparr>"

definition mark_error :: "exc_class \<Rightarrow> real \<Rightarrow> ConnectionHealth \<Rightarrow> ConnectionHealth" where
  "mark_error err now h =
     h\<lparr>is_healthy := False, last_error := Some err,
       error_count := error_count h + 1, last_check := now\<rparr>"

definition mark_healthy :: "real \<Rightarrow> ConnectionHealth \<Rightarrow> ConnectionHealth" where
  "mark_healthy now h =
     h\<lparr>is_healthy := True, last_error := None, error_count := 0, last_check := now\<rparr>"

definition should_reconnect :: "ConnectionHealth \<Rightarrow> bool" where
  "should_reconnect h = (\<not> is_healthy h \<or> error_count h \<ge> 3)"

subsection \<open>The outside world\<close>

text \<open>
  An HTTP response as the source reads it: \<open>status_code\<close>, \<open>text\<close>, the \<open>Location\<close>
  header, the cookies, and the two things libraries compute from the body: the
  \<open>input\<close> elements BeautifulSoup finds (name and \<open>value\<close> attribute, in document
  order) and the result of \<open>model.parse_obj(response.json())\<close> (\<open>None\<close> when either
  call raises).
\<close>

record 'm Response =
  status_code :: int
  body_text :: string
  location :: "string option"
  cookies :: "(string \<times> string) list"
  html_inputs :: "(string \<times> string option) list"
  parsed :: "'m option"

record Request =
  http_method :: string
  url :: string
  form_data :: "(string \<times> string) list"
  sent_cookies :: "(string \<times> string) list"

text \<open>
  The k-th HTTP call of a run returns \<open>http_script k\<close> (\<open>Raise e\<close>: the call raises
  \<open>e\<close>); \<open>http_log\<close> holds the requests sent so far. Likewise for the clock, the
  random number generator and \<open>session.aclose()\<close> (\<open>True\<close>: it raises). \<open>slept\<close> is
  the list of delays passed to \<open>asyncio.sleep\<close>.
\<close>

record 'm world =
  http_script :: "nat \<Rightarrow> 'm Response result"
  http_log :: "Request list"
  time_script :: "nat \<Rightarrow> real"
  time_calls :: nat
  random_script :: "nat \<Rightarrow> real"
  random_calls :: nat
  aclose_script :: "nat \<Rightarrow> bool"
  aclose_calls :: nat
  slept :: "real list"

definition time_time :: "'m world \<Rightarrow> real \<times> 'm world" where
  "time_time w = (time_script w (time_calls w), w\<lparr>time_calls := Suc (time_calls w)\<rparr>)"

definition random_random :: "'m world \<Rightarrow> real \<times> 'm world" where
  "random_random w =
     (random_script w (random_calls w), w\<lparr>random_calls := Suc (random_calls w)\<rparr>)"

definition asyncio_sleep :: "real \<Rightarrow> 'm world \<Rightarrow> 'm world" where
  "asyncio_sleep d w = w\<lparr>slept := slept w @ [d]\<rparr>"

definition http_send :: "Request \<Rightarrow> 'm world \<Rightarrow> 'm Response result \<times> 'm world" where
  "http_send rq w = (http_script w (length (http_log w)), w\<lparr>http_log := http_log w @ [rq]\<rparr>)"

definition session_aclose :: "'m world \<Rightarrow> bool \<times> 'm world" where
  "session_aclose w =
     (aclose_script w (aclose_calls w), w\<lparr>aclose_calls := Suc (aclose_calls w)\<rparr>)"

subsection \<open>AUFEConnection: fields, activity tracking, status queries\<close>

text \<open>
  The fields of \<open>AUFEConnection\<close>. The httpx client itself is the outside world above;
  the monitor task is not modelled.
\<close>

record 'm AUFEConnection =
  server_url :: string
  retry_config :: RetryConfig
  twf_id :: "string option"
  logged_in :: bool
  student_id :: "string option"
  last_activity :: real
  is_closed :: bool
  health :: ConnectionHealth
  request_cache :: "(string \<times> ('m \<times> real)) list"
  cache_ttl :: real
  uaap_login_url :: string
  uaap_cookies :: "(string \<times> string) list option"
  uaap_logged_in :: bool

type_synonym 'm state = "'m world \<times> 'm AUFEConnection"

definition update_activity :: "'m state \<Rightarrow> 'm state" where
  "update_activity s =
     (case s of (w, c) \<Rightarrow>
        (case time_time w of (t, w') \<Rightarrow> (w', c\<lparr>last_activity := t\<rparr>)))"

text \<open>The decorator \<open>activity_tracker\<close>: every connection has \<open>_update_activity\<close>.\<close>

definition activity_tracker :: "('m state \<Rightarrow> 'a \<times> 'm state) \<Rightarrow> 'm state \<Rightarrow> 'a \<times> 'm state" where
  "activity_tracker func s = func (update_activity s)"

definition health_mark_error :: "exc_class \<Rightarrow> 'm state \<Rightarrow> 'm state" where
  "health_mark_error err s =
     (case s of (w, c) \<Rightarrow>
        (case time_time w of (t, w') \<Rightarrow> (w', c\<lparr>health := mark_error err t (health c)\<rparr>)))"

definition health_mark_healthy :: "'m state \<Rightarrow> 'm state" where
  "health_mark_healthy s =
     (case s of (w, c) \<Rightarrow>
        (case time_time w of (t, w') \<Rightarrow> (w', c\<lparr>health := mark_healthy t (health c)\<rparr>)))"

definition login_status :: "'m state \<Rightarrow> bool \<times> 'm state" where
  "login_status =
     activity_tracker (\<lambda>s. (logged_in (snd s) \<and> is_healthy (health (snd s)), s))"

definition uaap_login_status :: "'m state \<Rightarrow> bool \<times> 'm state" where
  "uaap_login_status =
     activity_tracker (\<lambda>s. (uaap_logged_in (snd s) \<and> is_healthy (health (snd s)), s))"

subsection \<open>The retry executor\<close>

text \<open>
  \<open>_calculate_delay\<close>. \<open>attempt\<close> comes from \<open>range\<close>, so it is never negative.
  Floats are idealised as reals, with one exception: \<open>exponential_base ** attempt\<close>
  raises \<open>OverflowError\<close> when the power leaves the range of a float (at base 2 from
  \<open>attempt = 1024\<close> on). \<open>FLOAT_OVERFLOW\<close> is the least magnitude that rounding to
  nearest sends beyond the largest float \<open>(2 - 2^-52) * 2^1023\<close>: the midpoint between
  that float and \<open>2^1024\<close>. An underflowing power is 0 and does not raise. A product
  that overflows gives \<open>inf\<close> without raising, and \<open>min\<close> then returns \<open>max_delay\<close>.
  The jitter reads \<open>random.random()\<close> only when it is applied.
\<close>

definition FLOAT_OVERFLOW :: real where
  "FLOAT_OVERFLOW = (2 - 1 / 2 ^ 53) * 2 ^ 1023"

definition delay_overflows :: "int \<Rightarrow> RetryConfig \<Rightarrow> bool" where
  "delay_overflows attempt config =
     (strategy config = EXPONENTIAL_BACKOFF
      \<and> FLOAT_OVERFLOW \<le> \<bar>exponential_base config ^ nat attempt\<bar>)"

definition calculate_delay :: "int \<Rightarrow> RetryConfig \<Rightarrow> 'm world \<Rightarrow> real result \<times> 'm world" where
  "calculate_delay attempt config w =
     (if delay_overflows attempt config then (Raise OverflowError, w)
      else
       (let delay =
          (case strategy config of
             IMMEDIATE \<Rightarrow> 0
           | FIXED_DELAY \<Rightarrow> base_delay config
           | EXPONENTIAL_BACKOFF \<Rightarrow>
               min (base_delay config * exponential_base config ^ nat attempt) (max_delay config)
           | LINEAR_BACKOFF \<Rightarrow>
               min (base_delay config * (of_int attempt + 1)) (max_delay config))
        in if jitter config \<and> delay > 0
           then (case random_random w of (r, w') \<Rightarrow> (Return (delay * (0.5 + r * 0.5)), w'))
           else (Return delay, w)))"

definition py_range :: "int \<Rightarrow> int list" where
  "py_range n = map int [0..<nat n]"

text \<open>
  The wrapper built by \<open>retry_async(config)\<close>. The list holds the values of \<open>attempt\<close>
  still to come; the first equation is the code after the loop. A value returned by
  \<open>func\<close> is \<open>Return (Some v)\<close>; \<open>Return None\<close> is Python's \<open>None\<close> when the wrapper
  falls off its end. The delay is computed inside the \<open>except\<close> clause, so an
  exception of \<open>_calculate_delay\<close> leaves the wrapper.
\<close>

fun retry_loop ::
  "RetryConfig \<Rightarrow> ('m world \<times> 'c \<Rightarrow> 'a result \<times> 'm world \<times> 'c) \<Rightarrow> int list
     \<Rightarrow> exc_class option \<Rightarrow> 'm world \<times> 'c \<Rightarrow> 'a option result \<times> 'm world \<times> 'c" where
  "retry_loop config func [] last_exception s =
     (case last_exception of Some e \<Rightarrow> (Raise e, s) | None \<Rightarrow> (Return None, s))"
| "retry_loop config func (attempt # rest) last_exception s =
     (case func s of
        (Return v, s') \<Rightarrow> (Return (Some v), s')
      | (Raise e, s') \<Rightarrow>
          if isinstance e (retry_on_exceptions config) then
            if attempt = max_attempts config - 1
            then retry_loop config func [] (Some e) s'
            else (case calculate_delay attempt config (fst s') of
                    (Raise x, w') \<Rightarrow> (Raise x, (w', snd s'))
                  | (Return delay, w') \<Rightarrow>
                      retry_loop config func rest (Some e) (asyncio_sleep delay w', snd s'))
          else (Raise e, s'))"

definition retry_async ::
  "RetryConfig \<Rightarrow> ('m world \<times> 'c \<Rightarrow> 'a result \<times> 'm world \<times> 'c)
     \<Rightarrow> 'm world \<times> 'c \<Rightarrow> 'a option result \<times> 'm world \<times> 'c" where
  "retry_async config func s =
     retry_loop config func (py_range (max_attempts config)) None s"

text \<open>
  A counter of executions put around an operation, to state how many times the
  executor ran it.
\<close>

definition counted ::
  "('m world \<times> 'c \<Rightarrow> 'a result \<times> 'm world \<times> 'c)
     \<Rightarrow> 'm world \<times> nat \<times> 'c \<Rightarrow> 'a result \<times> 'm world \<times> nat \<times> 'c" where
  "counted func s =
     (case s of (w, n, c) \<Rightarrow>
        (case func (w, c) of (r, w', c') \<Rightarrow> (r, w', Suc n, c')))"

subsection \<open>Pattern matching on response bodies\<close>

fun startswith :: "'a list \<Rightarrow> 'a list \<Rightarrow> bool" where
  "startswith s [] = True"
| "startswith [] (p # ps) = False"
| "startswith (c # cs) (p # ps) = (c = p \<and> startswith cs ps)"

text \<open>Python's \<open>needle in s\<close> on strings.\<close>

fun contains :: "'a list \<Rightarrow> 'a list \<Rightarrow> bool" where
  "contains [] needle = (needle = [])"
| "contains (c # cs) needle = (startswith (c # cs) needle \<or> contains cs needle)"

text \<open>
  The group of \<open>(.*)close\<close> matched at the start of \<open>line\<close>, a text without newline:
  \<open>.*\<close> is greedy, so the group is the longest prefix followed by \<open>close\<close>.
\<close>

fun greedy_group :: "string \<Rightarrow> string \<Rightarrow> string option" where
  "greedy_group close [] = (if close = [] then Some [] else None)"
| "greedy_group close (c # cs) =
     (case greedy_group close cs of
        Some g \<Rightarrow> Some (c # g)
      | None \<Rightarrow> if startswith (c # cs) close then Some [] else None)"

text \<open>
  \<open>re.search("<tag>(.*)</tag>", content)\<close> and \<open>group(1)\<close> of the match: the leftmost
  start position wins, and \<open>.\<close> matches every character but the newline.
\<close>

fun re_search :: "string \<Rightarrow> string \<Rightarrow> string \<Rightarrow> string option" where
  "re_search opening close [] = None"
| "re_search opening close (c # cs) =
     (if startswith (c # cs) opening then
        (case greedy_group close
                (takeWhile (\<lambda>x. x \<noteq> CHR 0x0A) (drop (length opening) (c # cs))) of
           Some g \<Rightarrow> Some g
         | None \<Rightarrow> re_search opening close cs)
      else re_search opening close cs)"

definition re_search_tag :: "string \<Rightarrow> string \<Rightarrow> string option" where
  "re_search_tag tag content =
     re_search (''<'' @ tag @ ''>'') (''</'' @ tag @ ''>'') content"

subsection \<open>VPN login\<close>

text \<open>The two \<open>except\<close> clauses of \<open>login\<close>.\<close>

definition login_except :: "exc_class \<Rightarrow> 'm state \<Rightarrow> bool result \<times> 'm state" where
  "login_except e s =
     (case s of (w, c) \<Rightarrow>
        (if issubclass e RequestError
         then (Raise AUFEConnectionError, health_mark_error e (w, c\<lparr>logged_in := False\<rparr>))
         else (Raise AUFELoginError, health_mark_error e (w, c\<lparr>logged_in := False\<rparr>))))"

text \<open>
  The body of \<open>login\<close>. \<open>rsa_encrypt exp key plaintext\<close> stands for the lines from
  \<open>int(rsa_exp)\<close> to \<open>hexlify\<close>: the hex ciphertext, or \<open>None\<close> when one of them
  raises (a key that is not a number, a plaintext too long for the modulus).
\<close>

definition login_attempt ::
  "(string \<Rightarrow> string \<Rightarrow> string \<Rightarrow> string option) \<Rightarrow> string \<Rightarrow> string
     \<Rightarrow> 'm state \<Rightarrow> bool result \<times> 'm state" where
  "login_attempt rsa_encrypt username password s =
     (case s of (w, c) \<Rightarrow>
      (case http_send \<lparr>http_method = ''GET'',
                       url = server_url c @ ''/por/login_auth.csp?apiversion=1'',
                       form_data = [], sent_cookies = []\<rparr> w of
         (Raise e, w1) \<Rightarrow> login_except e (w1, c)
       | (Return resp, w1) \<Rightarrow>
          (case re_search_tag ''TwfID'' (body_text resp) of
             None \<Rightarrow> (Return False, (w1, c))
           | Some twfid \<Rightarrow>
              (case re_search_tag ''RSA_ENCRYPT_KEY'' (body_text resp) of
                 None \<Rightarrow> (Return False, (w1, c\<lparr>twf_id := Some twfid\<rparr>))
               | Some rsa_key \<Rightarrow>
                  (let rsa_exp = (case re_search_tag ''RSA_ENCRYPT_EXP'' (body_text resp) of
                                    Some x \<Rightarrow> x | None \<Rightarrow> ''65537'');
                       csrf_match = re_search_tag ''CSRF_RAND_CODE'' (body_text resp);
                       csrf_code = (case csrf_match of Some x \<Rightarrow> x | None \<Rightarrow> []);
                       password_to_encrypt =
                         (case csrf_match of Some x \<Rightarrow> password @ ''_'' @ x | None \<Rightarrow> password)
                   in (case rsa_encrypt rsa_exp rsa_key password_to_encrypt of
                         None \<Rightarrow> login_except OtherException (w1, c\<lparr>twf_id := Some twfid\<rparr>)
                       | Some encrypted_password_hex \<Rightarrow>
                          (case http_send
                                  \<lparr>http_method = ''POST'',
                                   url = server_url c
                                     @ ''/por/login_psw.csp?anti_replay=1&encrypt=1&type=cs'',
                                   form_data =
                                     [(''svpn_rand_code'', []), (''mitm'', []),
                                      (''svpn_req_randcode'', csrf_code),
                                      (''svpn_name'', username),
                                      (''svpn_password'', encrypted_password_hex)],
                                   sent_cookies = [(''TWFID'', twfid)]\<rparr> w1 of
                             (Raise e, w2) \<Rightarrow> login_except e (w2, c\<lparr>twf_id := Some twfid\<rparr>)
                           | (Return resp2, w2) \<Rightarrow>
                               if contains (body_text resp2) ''<Result>1</Result>''
                               then (Return True,
                                     (w2, c\<lparr>twf_id := Some twfid, logged_in := True\<rparr>))
                               else (Return False,
                                     (w2, c\<lparr>twf_id := Some twfid, logged_in := False\<rparr>)))))))))"

text \<open>
  \<open>login\<close> as decorated: \<open>@activity_tracker\<close> around \<open>@retry_async()\<close>. \<open>dconfig\<close> is
  the \<open>RetryConfig()\<close> the decorator builds from the configuration file.
\<close>

definition login ::
  "RetryConfig \<Rightarrow> (string \<Rightarrow> string \<Rightarrow> string \<Rightarrow> string option) \<Rightarrow> string \<Rightarrow> string
     \<Rightarrow> 'm state \<Rightarrow> bool option result \<times> 'm state" where
  "login dconfig rsa_encrypt username password =
     activity_tracker (retry_async dconfig (login_attempt rsa_encrypt username password))"

subsection \<open>SSO password encryption\<close>

text \<open>
  \<open>_encrypt_password\<close> calls the cryptography package: \<open>PKCS7(64)\<close> padding, the
  \<open>TripleDES\<close> algorithm in ECB mode, and \<open>b64encode\<close>. These library functions are
  modelled from their standards: DES and the three-key EDE construction from FIPS 46-3
  and NIST SP 800-67, PKCS7 padding from RFC 5652, base64 from RFC 4648. A block is
  the list of its 64 bits, the most significant bit of the first byte first; the
  tables count bit positions from 1, as the standard does.
\<close>

fun bits_of_byte :: "char \<Rightarrow> bool list" where
  "bits_of_byte (Char b0 b1 b2 b3 b4 b5 b6 b7) = [b7, b6, b5, b4, b3, b2, b1, b0]"

definition bytes_to_bits :: "string \<Rightarrow> bool list" where
  "bytes_to_bits bs = concat (map bits_of_byte bs)"

fun bits_to_bytes :: "bool list \<Rightarrow> string" where
  "bits_to_bytes (b7 # b6 # b5 # b4 # b3 # b2 # b1 # b0 # rest) =
     Char b0 b1 b2 b3 b4 b5 b6 b7 # bits_to_bytes rest"
| "bits_to_bytes rest = []"

definition permute :: "nat list \<Rightarrow> 'a list \<Rightarrow> 'a list" where
  "permute table xs = map (\<lambda>i. xs ! (i - 1)) table"

definition xor_bits :: "bool list \<Rightarrow> bool list \<Rightarrow> bool list" where
  "xor_bits a b = map2 (\<lambda>x y. x \<noteq> y) a b"

definition rotate_left :: "nat \<Rightarrow> 'a list \<Rightarrow> 'a list" where
  "rotate_left n xs = drop n xs @ take n xs"

definition IP :: "nat list" where
  "IP =
     [58, 50, 42, 34, 26, 18, 10, 2,
      60, 52, 44, 36, 28, 20, 12, 4,
      62, 54, 46, 38, 30, 22, 14, 6,
      64, 56, 48, 40, 32, 24, 16, 8,
      57, 49, 41, 33, 25, 17, 9, 1,
      59, 51, 43, 35, 27, 19, 11, 3,
      61, 53, 45, 37, 29, 21, 13, 5,
      63, 55, 47, 39, 31, 23, 15, 7]"

definition FP :: "nat list" where
  "FP =
     [40, 8, 48, 16, 56, 24, 64, 32,
      39, 7, 47, 15, 55, 23, 63, 31,
      38, 6, 46, 14, 54, 22, 62, 30,
      37, 5, 45, 13, 53, 21, 61, 29,
      36, 4, 44, 12, 52, 20, 60, 28,
      35, 3, 43, 11, 51, 19, 59, 27,
      34, 2, 42, 10, 50, 18, 58, 26,
      33, 1, 41, 9, 49, 17, 57, 25]"

definition E_BIT_SELECTION :: "nat list" where
  "E_BIT_SELECTION =
     [32, 1, 2, 3, 4, 5,
      4, 5, 6, 7, 8, 9,
      8, 9, 10, 11, 12, 13,
      12, 13, 14, 15, 16, 17,
      16, 17, 18, 19, 20, 21,
      20, 21, 22, 23, 24, 25,
      24, 25, 26, 27, 28, 29,
      28, 29, 30, 31, 32, 1]"

definition P_PERMUTATION :: "nat list" where
  "P_PERMUTATION =
     [16, 7, 20, 21, 29, 12, 28, 17,
      1, 15, 23, 26, 5, 18, 31, 10,
      2, 8, 24, 14, 32, 27, 3, 9,
      19, 13, 30, 6, 22, 11, 4, 25]"

definition PC1 :: "nat list" where
  "PC1 =
     [57, 49, 41, 33, 25, 17, 9,
      1, 58, 50, 42, 34, 26, 18,
      10, 2, 59, 51, 43, 35, 27,
      19, 11, 3, 60, 52, 44, 36,
      63, 55, 47, 39, 31, 23, 15,
      7, 62, 54, 46, 38, 30, 22,
      14, 6, 61, 53, 45, 37, 29,
      21, 13, 5, 28, 20, 12, 4]"

definition PC2 :: "nat list" where
  "PC2 =
     [14, 17, 11, 24, 1, 5,
      3, 28, 15, 6, 21, 10,
      23, 19, 12, 4, 26, 8,
      16, 7, 27, 20, 13, 2,
      41, 52, 31, 37, 47, 55,
      30, 40, 51, 45, 33, 48,
      44, 49, 39, 56, 34, 53,
      46, 42, 50, 36, 29, 32]"

definition SHIFTS :: "nat list" where
  "SHIFTS =
     [1, 1, 2, 2, 2, 2, 2, 2, 1, 2, 2, 2, 2, 2, 2, 1]"

definition S_BOXES :: "nat list list" where
  "S_BOXES =
     [[14, 4, 13, 1, 2, 15, 11, 8, 3, 10, 6, 12, 5, 9, 0, 7,
       0, 15, 7, 4, 14, 2, 13, 1, 10, 6, 12, 11, 9, 5, 3, 8,
       4, 1, 14, 8, 13, 6, 2, 11, 15, 12, 9, 7, 3, 10, 5, 0,
       15, 12, 8, 2, 4, 9, 1, 7, 5, 11, 3, 14, 10, 0, 6, 13],
      [15, 1, 8, 14, 6, 11, 3, 4, 9, 7, 2, 13, 12, 0, 5, 10,
       3, 13, 4, 7, 15, 2, 8, 14, 12, 0, 1, 10, 6, 9, 11, 5,
       0, 14, 7, 11, 10, 4, 13, 1, 5, 8, 12, 6, 9, 3, 2, 15,
       13, 8, 10, 1, 3, 15, 4, 2, 11, 6, 7, 12, 0, 5, 14, 9],
      [10, 0, 9, 14, 6, 3, 15, 5, 1, 13, 12, 7, 11, 4, 2, 8,
       13, 7, 0, 9, 3, 4, 6, 10, 2, 8, 5, 14, 12, 11, 15, 1,
       13, 6, 4, 9, 8, 15, 3, 0, 11, 1, 2, 12, 5, 10, 14, 7,
       1, 10, 13, 0, 6, 9, 8, 7, 4, 15, 14, 3, 11, 5, 2, 12],
      [7, 13, 14, 3, 0, 6, 9, 10, 1, 2, 8, 5, 11, 12, 4, 15,
       13, 8, 11, 5, 6, 15, 0, 3, 4, 7, 2, 12, 1, 10, 14, 9,
       10, 6, 9, 0, 12, 11, 7, 13, 15, 1, 3, 14, 5, 2, 8, 4,
       3, 15, 0, 6, 10, 1, 13, 8, 9, 4, 5, 11, 12, 7, 2, 14],
      [2, 12, 4, 1, 7, 10, 11, 6, 8, 5, 3, 15, 13, 0, 14, 9,
       14, 11, 2, 12, 4, 7, 13, 1, 5, 0, 15, 10, 3, 9, 8, 6,
       4, 2, 1, 11, 10, 13, 7, 8, 15, 9, 12, 5, 6, 3, 0, 14,
       11, 8, 12, 7, 1, 14, 2, 13, 6, 15, 0, 9, 10, 4, 5, 3],
      [12, 1, 10, 15, 9, 2, 6, 8, 0, 13, 3, 4, 14, 7, 5, 11,
       10, 15, 4, 2, 7, 12, 9, 5, 6, 1, 13, 14, 0, 11, 3, 8,
       9, 14, 15, 5, 2, 8, 12, 3, 7, 0, 4, 10, 1, 13, 11, 6,
       4, 3, 2, 12, 9, 5, 15, 10, 11, 14, 1, 7, 6, 0, 8, 13],
      [4, 11, 2, 14, 15, 0, 8, 13, 3, 12, 9, 7, 5, 10, 6, 1,
       13, 0, 11, 7, 4, 9, 1, 10, 14, 3, 5, 12, 2, 15, 8, 6,
       1, 4, 11, 13, 12, 3, 7, 14, 10, 15, 6, 8, 0, 5, 9, 2,
       6, 11, 13, 8, 1, 4, 10, 7, 9, 5, 0, 15, 14, 2, 3, 12],
      [13, 2, 8, 4, 6, 15, 11, 1, 10, 9, 3, 14, 5, 0, 12, 7,
       1, 15, 13, 8, 10, 3, 7, 4, 12, 5, 6, 11, 0, 14, 9, 2,
       7, 11, 4, 1, 9, 12, 14, 2, 0, 6, 10, 13, 15, 3, 5, 8,
       2, 1, 14, 7, 4, 10, 8, 13, 15, 12, 9, 0, 3, 5, 6, 11]]"

text \<open>
  One S-box: the first and last of the six bits select the row, the middle four the
  column; the entry is written as four bits.
\<close>

definition sbox :: "nat list \<Rightarrow> bool list \<Rightarrow> bool list" where
  "sbox table six =
     (let row = 2 * of_bool (six ! 0) + of_bool (six ! 5);
          col = 8 * of_bool (six ! 1) + 4 * of_bool (six ! 2)
                  + 2 * of_bool (six ! 3) + of_bool (six ! 4);
          v = table ! (16 * row + col)
      in [bit v 3, bit v 2, bit v 1, bit v 0])"

definition substitute :: "bool list \<Rightarrow> bool list" where
  "substitute x =
     concat (map (\<lambda>i. sbox (S_BOXES ! i) (take 6 (drop (6 * i) x))) [0..<8])"

definition cipher_function :: "bool list \<Rightarrow> bool list \<Rightarrow> bool list" where
  "cipher_function r k =
     permute P_PERMUTATION (substitute (xor_bits (permute E_BIT_SELECTION r) k))"

fun key_schedule :: "nat list \<Rightarrow> bool list \<Rightarrow> bool list \<Rightarrow> bool list list" where
  "key_schedule [] c d = []"
| "key_schedule (s # ss) c d =
     permute PC2 (rotate_left s c @ rotate_left s d)
       # key_schedule ss (rotate_left s c) (rotate_left s d)"

definition subkeys :: "bool list \<Rightarrow> bool list list" where
  "subkeys key = key_schedule SHIFTS (take 28 (permute PC1 key)) (drop 28 (permute PC1 key))"

definition feistel_round :: "bool list \<Rightarrow> bool list \<times> bool list \<Rightarrow> bool list \<times> bool list" where
  "feistel_round k lr = (snd lr, xor_bits (fst lr) (cipher_function (snd lr) k))"

definition des_crypt :: "bool list list \<Rightarrow> bool list \<Rightarrow> bool list" where
  "des_crypt ks block =
     (let lr = fold feistel_round ks (take 32 (permute IP block), drop 32 (permute IP block))
      in permute FP (snd lr @ fst lr))"

definition des_encrypt_block :: "bool list \<Rightarrow> bool list \<Rightarrow> bool list" where
  "des_encrypt_block key block = des_crypt (subkeys key) block"

definition des_decrypt_block :: "bool list \<Rightarrow> bool list \<Rightarrow> bool list" where
  "des_decrypt_block key block = des_crypt (rev (subkeys key)) block"

text \<open>
  \<open>algorithms.TripleDES(key)\<close>: a key of 8 bytes is used three times, one of 16
  bytes is followed by its first half, any length other than 8, 16 or 24 raises
  \<open>ValueError\<close>. The result is the 24-byte key.
\<close>

definition TripleDES :: "string \<Rightarrow> string result" where
  "TripleDES key =
     (let key24 = (if length key = 8 then key @ key @ key
                   else if length key = 16 then key @ take 8 key else key)
      in if length key24 = 24 then Return key24 else Raise OtherException)"

text \<open>Encrypt with the first key, decrypt with the second, encrypt with the third.\<close>

definition tripledes_encrypt_block :: "string \<Rightarrow> bool list \<Rightarrow> bool list" where
  "tripledes_encrypt_block key24 block =
     des_encrypt_block (bytes_to_bits (drop 16 key24))
       (des_decrypt_block (bytes_to_bits (take 8 (drop 8 key24)))
          (des_encrypt_block (bytes_to_bits (take 8 key24)) block))"

text \<open>
  ECB mode over data whose length is a multiple of 8 bytes, which the padding
  guarantees.
\<close>

function ecb_encrypt :: "(bool list \<Rightarrow> bool list) \<Rightarrow> string \<Rightarrow> string" where
  "ecb_encrypt enc data =
     (if data = [] then []
      else bits_to_bytes (enc (bytes_to_bits (take 8 data))) @ ecb_encrypt enc (drop 8 data))"
  by pat_completeness auto
termination
  by (relation "measure (\<lambda>(enc, data). length data)") auto

declare ecb_encrypt.simps [simp del]

definition pkcs7_pad :: "string \<Rightarrow> string" where
  "pkcs7_pad data =
     data @ replicate (8 - length data mod 8) (char_of (8 - length data mod 8))"

definition b64_char :: "nat \<Rightarrow> char" where
  "b64_char n =
     ''ABCDEFGHIJKLMNOPQRSTUVWXYZabcdefghijklmnopqrstuvwxyz0123456789+/'' ! n"

fun b64encode :: "string \<Rightarrow> string" where
  "b64encode [] = []"
| "b64encode [a] =
     [b64_char (of_char a div 4), b64_char (of_char a mod 4 * 16), CHR ''='', CHR ''='']"
| "b64encode [a, b] =
     [b64_char (of_char a div 4),
      b64_char (of_char a mod 4 * 16 + of_char b div 16),
      b64_char (of_char b mod 16 * 4), CHR ''='']"
| "b64encode (a # b # c # rest) =
     [b64_char (of_char a div 4),
      b64_char (of_char a mod 4 * 16 + of_char b div 16),
      b64_char (of_char b mod 16 * 4 + of_char c div 64),
      b64_char (of_char c mod 64)] @ b64encode rest"

text \<open>\<open>_encrypt_password\<close>.\<close>

definition encrypt_password :: "string \<Rightarrow> string \<Rightarrow> string result" where
  "encrypt_password password key =
     (let key_bytes = take 8 key;
          key_bytes = (if length key_bytes < 8
                       then key_bytes @ replicate (8 - length key_bytes) (CHR 0x00)
                       else key_bytes);
          padded_data = pkcs7_pad password
      in (case TripleDES key_bytes of
            Raise e \<Rightarrow> Raise e
          | Return key24 \<Rightarrow>
              Return (b64encode (ecb_encrypt (tripledes_encrypt_block key24) padded_data))))"

text \<open>
  The reference of the specification: single DES in ECB mode over the PKCS7-padded
  password, under the first 8 bytes of \<open>lt\<close> padded with zero bytes, base64-encoded.
\<close>

definition des_ecb_pkcs7_base64 :: "string \<Rightarrow> string \<Rightarrow> string" where
  "des_ecb_pkcs7_base64 password lt =
     b64encode
       (ecb_encrypt (des_encrypt_block (bytes_to_bits (take 8 (lt @ replicate 8 (CHR 0x00)))))
          (pkcs7_pad password))"

subsection \<open>SSO login\<close>

text \<open>The two \<open>except\<close> clauses of \<open>uaap_login\<close>: they do not touch the flags.\<close>

definition uaap_except :: "exc_class \<Rightarrow> 'm state \<Rightarrow> bool result \<times> 'm state" where
  "uaap_except e s =
     (if issubclass e RequestError
      then (Raise AUFEConnectionError, health_mark_error e s)
      else (Raise AUFELoginError, health_mark_error e s))"

text \<open>
  \<open>soup.find("input", {"name": name})\<close> followed by \<open>.get("value")\<close>: \<open>None\<close> when
  there is no such element, \<open>Some None\<close> when it has no \<open>value\<close> attribute.
\<close>

definition soup_find_input :: "string \<Rightarrow> 'm Response \<Rightarrow> string option option" where
  "soup_find_input name resp = map_of (html_inputs resp) name"

text \<open>
  The body of \<open>uaap_login\<close>. An \<open>lt\<close> element without value makes
  \<open>_encrypt_password\<close> raise \<open>AttributeError\<close>; a missing \<open>execution\<close> value is sent
  as the empty string.
\<close>

definition uaap_login_attempt :: "string \<Rightarrow> string \<Rightarrow> 'm state \<Rightarrow> bool result \<times> 'm state" where
  "uaap_login_attempt username password s =
     (case s of (w, c) \<Rightarrow>
      (case http_send \<lparr>http_method = ''GET'', url = uaap_login_url c,
                       form_data = [], sent_cookies = []\<rparr> w of
         (Raise e, w1) \<Rightarrow> uaap_except e (w1, c)
       | (Return response, w1) \<Rightarrow>
          if status_code response \<noteq> 200 then (Return False, (w1, c))
          else
          (case soup_find_input ''lt'' response of
             None \<Rightarrow> (Return False, (w1, c))
           | Some lt_value \<Rightarrow>
              (case soup_find_input ''execution'' response of
                 None \<Rightarrow> (Return False, (w1, c))
               | Some execution_value \<Rightarrow>
                  (case lt_value of
                     None \<Rightarrow> uaap_except OtherException (w1, c)
                   | Some lt \<Rightarrow>
                      (case encrypt_password password lt of
                         Raise e \<Rightarrow> uaap_except e (w1, c)
                       | Return encrypted_password \<Rightarrow>
                          (case http_send
                                  \<lparr>http_method = ''POST'', url = uaap_login_url c,
                                   form_data =
                                     [(''username'', username),
                                      (''password'', encrypted_password),
                                      (''lt'', lt),
                                      (''execution'',
                                         case execution_value of None \<Rightarrow> [] | Some v \<Rightarrow> v),
                                      (''_eventId'', ''submit''),
                                      (''isQrSubmit'', ''false''),
                                      (''qrValue'', []),
                                      (''isMobileLogin'', ''false'')],
                                   sent_cookies = []\<rparr> w1 of
                             (Raise e, w2) \<Rightarrow> uaap_except e (w2, c)
                           | (Return login_response, w2) \<Rightarrow>
                               if status_code login_response = 302 then
                                 (let redirect_location =
                                    (case location login_response of
                                       None \<Rightarrow> [] | Some l \<Rightarrow> l)
                                  in if redirect_location \<noteq> []
                                     then (Return True,
                                           (w2, c\<lparr>uaap_cookies := Some (cookies login_response),
                                                  uaap_logged_in := True\<rparr>))
                                     else (Return False, (w2, c)))
                               else (Return False, (w2, c)))))))))"

definition uaap_login ::
  "RetryConfig \<Rightarrow> string \<Rightarrow> string \<Rightarrow> 'm state \<Rightarrow> bool option result \<times> 'm state" where
  "uaap_login dconfig username password =
     activity_tracker (retry_async dconfig (uaap_login_attempt username password))"

subsection \<open>Reconnect\<close>

text \<open>
  \<open>_reconnect\<close>: close the session, open a new one, reset flags and tokens, mark the
  health record healthy. If \<open>aclose()\<close> raises, nothing is reset and
  \<open>AUFEConnectionError\<close> is raised.
\<close>

definition reconnect :: "'m state \<Rightarrow> unit result \<times> 'm state" where
  "reconnect s =
     (case s of (w, c) \<Rightarrow>
        (case session_aclose w of
           (True, w1) \<Rightarrow> (Raise AUFEConnectionError, (w1, c))
         | (False, w1) \<Rightarrow>
             (Return (),
              health_mark_healthy
                (w1, c\<lparr>logged_in := False, uaap_logged_in := False,
                       twf_id := None, uaap_cookies := None\<rparr>))))"

subsection \<open>The response cache\<close>

definition get_cached_response :: "string \<Rightarrow> 'm state \<Rightarrow> 'm option \<times> 'm state" where
  "get_cached_response key s =
     (case s of (w, c) \<Rightarrow>
        (case map_of (request_cache c) key of
           None \<Rightarrow> (None, s)
         | Some (response, timestamp) \<Rightarrow>
             (case time_time w of
                (now, w1) \<Rightarrow>
                  if now - timestamp < cache_ttl c then (Some response, (w1, c))
                  else (None, (w1, c\<lparr>request_cache := AList.delete key (request_cache c)\<rparr>)))))"

definition clear_cache :: "'m state \<Rightarrow> 'm state" where
  "clear_cache s =
     (case s of (w, c) \<Rightarrow>
        (case time_time w of
           (current_time, w1) \<Rightarrow>
             (w1, c\<lparr>request_cache :=
                     filter (\<lambda>entry. \<not> current_time - snd (snd entry) > cache_ttl c)
                       (request_cache c)\<rparr>)))"

definition cache_response :: "string \<Rightarrow> 'm \<Rightarrow> 'm state \<Rightarrow> 'm state" where
  "cache_response key response s =
     (case s of (w, c) \<Rightarrow>
        (case time_time w of
           (now, w1) \<Rightarrow>
             (let c1 = c\<lparr>request_cache := AList.update key (response, now) (request_cache c)\<rparr>
              in if int (length (request_cache c1)) mod 10 = 0
                 then clear_cache (w1, c1) else (w1, c1))))"

subsection \<open>Typed requests\<close>

text \<open>
  \<open>_send_http_request\<close>: \<open>requester()\<close> is activity-tracked and puts the TWFID cookie
  on the session; every branch of the dispatch on the method sends one request.
\<close>

definition send_http_request :: "string \<Rightarrow> string \<Rightarrow> 'm state \<Rightarrow> 'm Response result \<times> 'm state" where
  "send_http_request meth u s =
     (case update_activity s of (w, c) \<Rightarrow>
        (case http_send
                \<lparr>http_method = meth, url = u, form_data = [],
                 sent_cookies = (case twf_id c of
                                   None \<Rightarrow> []
                                 | Some t \<Rightarrow> if t = [] then [] else [(''TWFID'', t)])\<rparr> w of
           (r, w1) \<Rightarrow> (r, (w1, c))))"

text \<open>
  \<open>_send_model_request_final_attempt\<close>. A status other than 200 marks the error,
  raises it inside the \<open>try\<close>, and the \<open>except Exception\<close> clause marks an error again.
\<close>

definition send_model_request_final_attempt ::
  "string \<Rightarrow> string \<Rightarrow> 'm state \<Rightarrow> 'm result \<times> 'm state" where
  "send_model_request_final_attempt meth u s =
     (case send_http_request meth u s of
        (Raise e, s1) \<Rightarrow> (Raise AUFEConnectionError, health_mark_error AUFEConnectionError s1)
      | (Return response, s1) \<Rightarrow>
          if status_code response = 200 then
            (case parsed response of
               Some parsed_model \<Rightarrow> (Return parsed_model, health_mark_healthy s1)
             | None \<Rightarrow> (Raise AUFEConnectionError, health_mark_error AUFEConnectionError s1))
          else (Raise AUFEConnectionError,
                health_mark_error AUFEConnectionError
                  (health_mark_error AUFEConnectionError s1)))"

text \<open>
  One pass through the \<open>try\<close> of the loop in \<open>_send_model_request_with_retry\<close>:
  \<open>Inl\<close> is a \<open>return\<close> or \<open>raise\<close> that leaves the function, \<open>Inr\<close> the error of a
  failure that the loop may retry, already marked on the health record.
\<close>

definition send_attempt ::
  "string \<Rightarrow> string \<Rightarrow> 'm state \<Rightarrow> ('m result + exc_class) \<times> 'm state" where
  "send_attempt meth u s =
     (case send_http_request meth u s of
        (Raise e, s1) \<Rightarrow>
          if issubclass e RequestError
          then (Inr AUFEConnectionError, health_mark_error AUFEConnectionError s1)
          else (Inl (Raise e), s1)
      | (Return response, s1) \<Rightarrow>
          if status_code response = 200 then
            (case parsed response of
               Some parsed_model \<Rightarrow> (Inl (Return parsed_model), health_mark_healthy s1)
             | None \<Rightarrow> (Inr AUFEParseError, health_mark_error AUFEParseError s1))
          else (Inr AUFEConnectionError, health_mark_error AUFEConnectionError s1))"

text \<open>
  The loop of \<open>_send_model_request_with_retry\<close> over the remaining values of
  \<open>attempt\<close>; the first equation is the code after the loop. An exception of
  \<open>_calculate_delay\<close> is re-raised by \<open>except Exception as e: raise e\<close>, or leaves
  the \<open>except httpx.RequestError\<close> clause it was raised in.
\<close>

fun send_loop ::
  "RetryConfig \<Rightarrow> string \<Rightarrow> string \<Rightarrow> int list \<Rightarrow> exc_class option \<Rightarrow> 'm state
     \<Rightarrow> 'm option result \<times> 'm state" where
  "send_loop config meth u [] last_exception s =
     (if should_reconnect (health (snd s)) then
        (case reconnect s of
           (Raise e, s1) \<Rightarrow> (Raise e, s1)
         | (Return x, s1) \<Rightarrow>
             (case send_model_request_final_attempt meth u s1 of
                (Raise e, s2) \<Rightarrow> (Raise e, s2)
              | (Return parsed_model, s2) \<Rightarrow> (Return (Some parsed_model), s2)))
      else (case last_exception of
              Some e \<Rightarrow> (Raise e, s)
            | None \<Rightarrow> (Return None, s)))"
| "send_loop config meth u (attempt # rest) last_exception s =
     (case send_attempt meth u s of
        (Inl (Return parsed_model), s1) \<Rightarrow> (Return (Some parsed_model), s1)
      | (Inl (Raise e), s1) \<Rightarrow> (Raise e, s1)
      | (Inr error, s1) \<Rightarrow>
          if attempt = max_attempts config - 1
          then send_loop config meth u [] (Some error) s1
          else (case calculate_delay attempt config (fst s1) of
                  (Raise x, w') \<Rightarrow> (Raise x, (w', snd s1))
                | (Return delay, w') \<Rightarrow>
                    send_loop config meth u rest (Some error) (asyncio_sleep delay w', snd s1)))"

definition send_model_request_with_retry ::
  "string \<Rightarrow> string \<Rightarrow> 'm state \<Rightarrow> 'm option result \<times> 'm state" where
  "send_model_request_with_retry meth u s =
     send_loop (retry_config (snd s)) meth u
       (py_range (max_attempts (retry_config (snd s)))) None s"

text \<open>
  \<open>model_request\<close>. \<open>kwargs_hash\<close> is the text of \<open>hash(str(kwargs))\<close>. The first
  reconnect is outside the \<open>try\<close>; the \<open>except Exception\<close> clause around the request
  logs the error and returns \<open>None\<close>.
\<close>

definition model_request_body ::
  "string \<Rightarrow> string \<Rightarrow> string \<Rightarrow> bool \<Rightarrow> bool \<Rightarrow> 'm state \<Rightarrow> 'm option result \<times> 'm state" where
  "model_request_body u meth kwargs_hash use_cache force_reconnect s =
     (let cache_key = meth @ '':'' @ u @ '':'' @ kwargs_hash in
      (case (if use_cache then get_cached_response cache_key s else (None, s)) of
         (Some cached_result, s1) \<Rightarrow> (Return (Some cached_result), s1)
       | (None, s1) \<Rightarrow>
           (case (if force_reconnect \<or> should_reconnect (health (snd s1))
                  then reconnect s1 else (Return (), s1)) of
              (Raise e, s2) \<Rightarrow> (Raise e, s2)
            | (Return x, s2) \<Rightarrow>
                (case send_model_request_with_retry meth u s2 of
                   (Return (Some result), s3) \<Rightarrow>
                     (Return (Some result),
                      if use_cache then cache_response cache_key result s3 else s3)
                 | (Return None, s3) \<Rightarrow> (Return None, s3)
                 | (Raise e, s3) \<Rightarrow> (Return None, s3)))))"

definition model_request ::
  "string \<Rightarrow> string \<Rightarrow> string \<Rightarrow> bool \<Rightarrow> bool \<Rightarrow> 'm state \<Rightarrow> 'm option result \<times> 'm state" where
  "model_request u meth kwargs_hash use_cache force_reconnect =
     activity_tracker (model_request_body u meth kwargs_hash use_cache force_reconnect)"

text \<open>
  What the claims call a failing attempt: an answer the loop retries (a transport
  error, a status other than 200, a body that does not decode), and an answer on which
  the final attempt fails (any exception, a status other than 200, a body that does
  not decode).
\<close>

definition retryable_failure :: "'m Response result \<Rightarrow> bool" where
  "retryable_failure r =
     (case r of
        Raise e \<Rightarrow> issubclass e RequestError
      | Return response \<Rightarrow> status_code response \<noteq> 200 \<or> parsed response = None)"

definition final_failure :: "'m Response result \<Rightarrow> bool" where
  "final_failure r =
     (case r of
        Raise e \<Rightarrow> True
      | Return response \<Rightarrow> status_code response \<noteq> 200 \<or> parsed response = None)"

text \<open>
  The exception \<open>_send_model_request_with_retry\<close> ends with when every attempt
  fails and the reconnect-and-retry cycle fails as well: the typed
  \<open>AUFEConnectionError\<close>, unless the delay before one of the retries overflows.
\<close>

definition exhausted_error :: "RetryConfig \<Rightarrow> int list \<Rightarrow> exc_class" where
  "exhausted_error config attempts =
     (if list_ex (\<lambda>k. delay_overflows k config) (butlast attempts)
      then OverflowError else AUFEConnectionError)"

subsection \<open>Construction and reachable states of a connection\<close>

text \<open>
  \<open>AUFEConnection.__init__\<close>, without the registration in the pool (see the registry
  below) and without the monitor task. The clock is read for \<open>last_activity\<close> and
  again by \<open>ConnectionHealth()\<close>.
\<close>

definition AUFEConnection_init ::
  "AUFEConfig \<Rightarrow> string \<Rightarrow> string option \<Rightarrow> RetryConfig option \<Rightarrow> 'm world \<Rightarrow> 'm state" where
  "AUFEConnection_init cfg server sid rc w =
     (case time_time w of (t1, w1) \<Rightarrow>
        (case time_time w1 of (t2, w2) \<Rightarrow>
           (w2,
            \<lparr>server_url = ''https://'' @ server,
             retry_config = (case rc of Some r \<Rightarrow> r | None \<Rightarrow> RetryConfig_default cfg),
             twf_id = None, logged_in = False, student_id = sid,
             last_activity = t1, is_closed = False, health = init_health t2,
             request_cache = [], cache_ttl = 300,
             uaap_login_url = UAAP_LOGIN_URL cfg,
             uaap_cookies = None, uaap_logged_in = False\<rparr>)))"

text \<open>The invariant of the data model: SSO-authenticated implies VPN-authenticated.\<close>

definition auth_invariant :: "'m AUFEConnection \<Rightarrow> bool" where
  "auth_invariant c = (uaap_logged_in c \<longrightarrow> logged_in c)"

text \<open>
  The states a connection can reach by any sequence of logins, SSO logins, typed
  requests and reconnects, with any arguments, in a world that may change between two
  operations.
\<close>

inductive reachable :: "'m state \<Rightarrow> bool" where
  reach_init: "reachable (AUFEConnection_init cfg server sid rc w)"
| reach_world: "reachable (w, c) \<Longrightarrow> reachable (w', c)"
| reach_login: "reachable s \<Longrightarrow> reachable (snd (login dconfig rsa_encrypt username password s))"
| reach_uaap_login: "reachable s \<Longrightarrow> reachable (snd (uaap_login dconfig username password s))"
| reach_model_request:
    "reachable s \<Longrightarrow>
     reachable (snd (model_request u meth kwargs_hash use_cache force_reconnect s))"
| reach_reconnect: "reachable s \<Longrightarrow> reachable (snd (reconnect s))"

text \<open>
  The same, for callers that start an SSO login only on a connection whose VPN flag is
  set, and whose VPN logins on a connection with the SSO flag set succeed.
\<close>

inductive reachable_in_order :: "'m state \<Rightarrow> bool" where
  order_init: "reachable_in_order (AUFEConnection_init cfg server sid rc w)"
| order_world: "reachable_in_order (w, c) \<Longrightarrow> reachable_in_order (w', c)"
| order_login:
    "reachable_in_order s \<Longrightarrow>
     \<not> uaap_logged_in (snd s)
       \<or> fst (login dconfig rsa_encrypt username password s) = Return (Some True) \<Longrightarrow>
     reachable_in_order (snd (login dconfig rsa_encrypt username password s))"
| order_uaap_login:
    "reachable_in_order s \<Longrightarrow> logged_in (snd s) \<Longrightarrow>
     reachable_in_order (snd (uaap_login dconfig username password s))"
| order_model_request:
    "reachable_in_order s \<Longrightarrow>
     reachable_in_order (snd (model_request u meth kwargs_hash use_cache force_reconnect s))"
| order_reconnect: "reachable_in_order s \<Longrightarrow> reachable_in_order (snd (reconnect s))"

text \<open>
  What a typed request or a reconnect may do to the two flags: leave both as they
  were, or clear both.
\<close>

definition flags_kept_or_reset :: "'m AUFEConnection \<Rightarrow> 'm AUFEConnection \<Rightarrow> bool" where
  "flags_kept_or_reset c c' =
     (logged_in c' = logged_in c \<and> uaap_logged_in c' = uaap_logged_in c
      \<or> \<not> logged_in c' \<and> \<not> uaap_logged_in c')"

subsection \<open>The connection registry\<close>

text \<open>
  The module-level pool \<open>_aufe_connections\<close> maps a student id to a connection
  object. Objects live in a heap and are named by their address, so that "the same
  instance" is "the same address". \<open>close_tasks\<close> holds the connections for which
  \<open>asyncio.create_task(conn.close())\<close> was called; running those tasks is left to the
  event loop and is not modelled.
\<close>

record 'm pool =
  heap :: "nat \<Rightarrow> 'm AUFEConnection"
  next_addr :: nat
  aufe_connections :: "(string \<times> nat) list"
  close_tasks :: "nat list"

text \<open>
  \<open>is_active\<close>. The conjunction is evaluated left to right, so the clock is read only
  for a connection that is not closed.
\<close>

definition is_active :: "AUFEConfig \<Rightarrow> 'm state \<Rightarrow> bool \<times> 'm world" where
  "is_active cfg s =
     (case s of (w, c) \<Rightarrow>
        if is_closed c then (False, w)
        else (case time_time w of
                (now, w1) \<Rightarrow>
                  (now - last_activity c < ACTIVITY_TIMEOUT cfg \<and> is_healthy (health c), w1)))"

text \<open>
  The constructor as \<open>cls(server, student_id, timeout, retry_config)\<close> runs it: the
  new object is put into the pool only \<open>if student_id:\<close>, that is when the id is
  neither \<open>None\<close> nor the empty string.
\<close>

definition new_connection ::
  "AUFEConfig \<Rightarrow> string \<Rightarrow> string option \<Rightarrow> RetryConfig option
     \<Rightarrow> 'm world \<times> 'm pool \<Rightarrow> nat \<times> 'm world \<times> 'm pool" where
  "new_connection cfg server sid rc s =
     (case s of (w, p) \<Rightarrow>
        (case AUFEConnection_init cfg server sid rc w of
           (w1, c) \<Rightarrow>
             (next_addr p,
              w1,
              p\<lparr>heap := (heap p)(next_addr p := c),
                next_addr := Suc (next_addr p),
                aufe_connections :=
                  (case sid of
                     None \<Rightarrow> aufe_connections p
                   | Some i \<Rightarrow>
                       if i = [] then aufe_connections p
                       else AList.update i (next_addr p) (aufe_connections p))\<rparr>)))"

text \<open>\<open>create_or_get_connection\<close>; the result is the address of the connection.\<close>

definition create_or_get_connection ::
  "AUFEConfig \<Rightarrow> string \<Rightarrow> string \<Rightarrow> RetryConfig option
     \<Rightarrow> 'm world \<times> 'm pool \<Rightarrow> nat \<times> 'm world \<times> 'm pool" where
  "create_or_get_connection cfg server sid rc s =
     (case s of (w, p) \<Rightarrow>
        (case map_of (aufe_connections p) sid of
           None \<Rightarrow> new_connection cfg server (Some sid) rc (w, p)
         | Some existing_conn \<Rightarrow>
             (case is_active cfg (w, heap p existing_conn) of
                (True, w1) \<Rightarrow>
                  (case update_activity (w1, heap p existing_conn) of
                     (w2, c) \<Rightarrow>
                       (existing_conn, w2, p\<lparr>heap := (heap p)(existing_conn := c)\<rparr>))
              | (False, w1) \<Rightarrow>
                  new_connection cfg server (Some sid) rc
                    (w1, p\<lparr>close_tasks := close_tasks p @ [existing_conn]\<rparr>))))"

subsection \<open>Scenarios\<close>

text \<open>
  Concrete worlds and connections on which the theorems below are run: a world with a
  given HTTP script, a clock that ticks once per reading, no jitter and a transport
  that always closes; a response with a body only; the VPN portal of the end-to-end
  scenarios of the specification, with a 1024-bit RSA modulus; the RSA step of one
  run of the library on that key, the exponent 65537 and the password \<open>secret\<close> (a
  PKCS#1 v1.5 ciphertext of 128 bytes; the step is used at no other input); a
  connection as the constructor leaves it.
\<close>

definition scripted_world :: "(nat \<Rightarrow> 'm Response result) \<Rightarrow> 'm world" where
  "scripted_world script =
     \<lparr>http_script = script, http_log = [], time_script = real, time_calls = 0,
      random_script = (\<lambda>k. 0), random_calls = 0, aclose_script = (\<lambda>k. False),
      aclose_calls = 0, slept = []\<rparr>"

definition page :: "int \<Rightarrow> string \<Rightarrow> 'm Response" where
  "page code content =
     \<lparr>status_code = code, body_text = content, location = None, cookies = [],
      html_inputs = [], parsed = None\<rparr>"

definition portal_modulus :: string where
  "portal_modulus =
     ''D619B516275B2BAA264446EA7B27A1EE25750182E188D32C834FE7CB85ECB215''
     @ ''12A789145A8042AB568932BBBC9B3BE8CAE6D9F57F056E5DE4F0B80FAFE4722C''
     @ ''F39E383E8CF98F0FCF4E757F144DF563256D1380ADB465272C7A610B4C8CFDAF''
     @ ''B691E558D6C37AE4CA5AC6EB70C849EEC2657F1D813CA2D7D6BA0592E3B85BDD''"

definition portal_page :: string where
  "portal_page =
     ''<TwfID>ABC123</TwfID><RSA_ENCRYPT_KEY>'' @ portal_modulus
     @ ''</RSA_ENCRYPT_KEY><RSA_ENCRYPT_EXP>65537</RSA_ENCRYPT_EXP>''"

definition vpn_portal :: "string \<Rightarrow> nat \<Rightarrow> unit Response result" where
  "vpn_portal answer k =
     (if k = 0 then Return (page 200 portal_page) else Return (page 200 answer))"

definition recorded_ciphertext :: string where
  "recorded_ciphertext =
     ''4cf09dfe684b26d94b6dd17b30f2762ad1c63661ec6c1774f6b32c488427e91d''
     @ ''fc5ff166ab98c01e79dfa3b081381ea37fdfde8d881f716c7cb4ad55a15742dd''
     @ ''9d6bc3bffb6e8b05a65bdb9ddba3e79a43b0a97b119c6f2ddc200fc6ff562362''
     @ ''3e5e33ccc02f602d878fdf4b0f5ab229a4d9813686cf91236289aa44243f9fa8''"

definition recorded_rsa :: "string \<Rightarrow> string \<Rightarrow> string \<Rightarrow> string option" where
  "recorded_rsa rsa_exp rsa_key plaintext =
     (if rsa_exp = ''65537'' \<and> rsa_key = portal_modulus \<and> plaintext = ''secret''
      then Some recorded_ciphertext else None)"

definition fresh_connection :: "unit AUFEConnection" where
  "fresh_connection =
     \<lparr>server_url = ''https://vpn.aufe.edu.cn'',
      retry_config = RetryConfig_default AUFEConfig_defaults,
      twf_id = None, logged_in = False, student_id = Some ''20240001'',
      last_activity = 0, is_closed = False, health = init_health 0,
      request_cache = [], cache_ttl = 300,
      uaap_login_url = UAAP_LOGIN_URL AUFEConfig_defaults,
      uaap_cookies = None, uaap_logged_in = False\<rparr>"

text \<open>
  The SSO portal: a login page with the two hidden fields, then an answer to the
  POST with the given status and \<open>Location\<close> header, setting one cookie.
\<close>

definition cas_portal :: "int \<Rightarrow> string option \<Rightarrow> nat \<Rightarrow> unit Response result" where
  "cas_portal code loc k =
     (if k = 0
      then Return ((page 200 [])\<lparr>html_inputs :=
             [(''lt'', Some ''LT-12345-abc''), (''execution'', Some ''e1s1'')]\<rparr>)
      else Return ((page code [])\<lparr>location := loc, cookies := [(''CASTGC'', ''TGT-1'')]\<rparr>))"

text \<open>A service that answers every request with status 500.\<close>

definition failing_service :: "nat \<Rightarrow> unit Response result" where
  "failing_service k = Return (page 500 [])"


text \<open>
  The campus network: the VPN portal answers the first two requests (tokens, then the
  success marker), the SSO portal the next two (login page, then a 302 redirect).
\<close>

definition campus_network :: "nat \<Rightarrow> unit Response result" where
  "campus_network k =
     (if k < 2 then vpn_portal ''<Result>1</Result>'' k
      else cas_portal 302 (Some ''http://jwcxk2.aufe.edu.cn/'') (k - 2))"

text \<open>
  A session on the campus network: a new connection, after its VPN login, and after
  the SSO login that follows.
\<close>

definition new_session :: "unit state" where
  "new_session =
     AUFEConnection_init AUFEConfig_defaults ''vpn.aufe.edu.cn'' (Some ''20240001'') None
       (scripted_world campus_network)"

definition after_vpn_login :: "unit state" where
  "after_vpn_login =
     snd (login (RetryConfig_default AUFEConfig_defaults) recorded_rsa
            ''20240001'' ''secret'' new_session)"

definition after_sso_login :: "unit state" where
  "after_sso_login =
     snd (uaap_login (RetryConfig_default AUFEConfig_defaults) ''20240001'' ''secret''
            after_vpn_login)"

text \<open>The pool of a process that has not opened a connection yet.\<close>

definition empty_pool :: "unit pool" where
  "empty_pool =
     \<lparr>heap = (\<lambda>a. fresh_connection), next_addr = 0, aufe_connections = [],
      close_tasks = []\<rparr>"

text \<open>
  A portal that goes down: it answers one login handshake (tokens, then the success
  marker) and every later request with an error page that carries no token. A fresh
  connection to it, and the same connection after its first, successful login.
\<close>

definition portal_outage :: "nat \<Rightarrow> unit Response result" where
  "portal_outage k =
     (if k < 2 then vpn_portal ''<Result>1</Result>'' k
      else Return (page 502 ''<html><body>Bad Gateway</body></html>''))"

definition vpn_session :: "unit state" where
  "vpn_session =
     AUFEConnection_init AUFEConfig_defaults ''vpn.aufe.edu.cn'' (Some ''20240001'') None
       (scripted_world portal_outage)"

definition vpn_session_logged_in :: "unit state" where
  "vpn_session_logged_in =
     snd (login (RetryConfig_default AUFEConfig_defaults) recorded_rsa
            ''20240001'' ''secret'' vpn_session)"

text \<open>
  A connection whose retry configuration allows four attempts with the exponential
  base \<open>1e200\<close>: the delay before the fourth attempt needs \<open>1e400\<close>, which is no float.
\<close>

definition impatient_connection :: "unit AUFEConnection" where
  "impatient_connection =
     fresh_connection\<lparr>retry_config :=
       (RetryConfig_default AUFEConfig_defaults)
         \<lparr>max_attempts := 4, exponential_base := 10 ^ 200, jitter := False\<rparr>\<rparr>"

section \<open>Properties\<close>

subsection \<open>Auxiliary facts\<close>

lemma py_range_pos: "1 \<le> n \<Longrightarrow> py_range n = 0 # map int [1..<nat n]"
  by (simp add: py_range_def upt_rec [of 0])

lemma vpn_portal_tokens:
  "re_search_tag ''TwfID'' portal_page = Some ''ABC123''"
  "re_search_tag ''RSA_ENCRYPT_KEY'' portal_page = Some portal_modulus"
  "re_search_tag ''RSA_ENCRYPT_EXP'' portal_page = Some ''65537''"
  "re_search_tag ''CSRF_RAND_CODE'' portal_page = None"
  by (simp_all add: re_search_tag_def portal_page_def portal_modulus_def)

subsection \<open>DES decryption undoes encryption\<close>

lemma length_permute: "length (permute table xs) = length table"
  by (simp add: permute_def)

lemma xor_bits_cancel:
  "length a = length b \<Longrightarrow> xor_bits (xor_bits a b) b = a"
  unfolding xor_bits_def
  by (induction a b rule: list_induct2) auto

lemma length_xor_bits: "length (xor_bits a b) = min (length a) (length b)"
  by (simp add: xor_bits_def)

lemma length_cipher_function: "length (cipher_function r k) = 32"
  by (simp add: cipher_function_def length_permute P_PERMUTATION_def)

lemma feistel_round_undo:
  "length (fst lr) = 32 \<Longrightarrow>
   feistel_round k (snd (feistel_round k lr), fst (feistel_round k lr)) = (snd lr, fst lr)"
  by (simp add: feistel_round_def xor_bits_cancel length_cipher_function)

lemma feistel_round_lengths:
  "length (fst lr) = 32 \<Longrightarrow> length (snd lr) = 32 \<Longrightarrow>
   length (fst (feistel_round k lr)) = 32 \<and> length (snd (feistel_round k lr)) = 32"
  by (simp add: feistel_round_def length_xor_bits length_cipher_function)

lemma feistel_rounds_undo:
  "length (fst lr) = 32 \<Longrightarrow> length (snd lr) = 32 \<Longrightarrow>
   fold feistel_round (rev ks)
     (snd (fold feistel_round ks lr), fst (fold feistel_round ks lr)) = (snd lr, fst lr)"
proof (induction ks arbitrary: lr)
  case Nil
  then show ?case by simp
next
  case (Cons k ks)
  have len: "length (fst (feistel_round k lr)) = 32 \<and> length (snd (feistel_round k lr)) = 32"
    using Cons.prems by (rule feistel_round_lengths)
  have "fold feistel_round (rev (k # ks))
          (snd (fold feistel_round (k # ks) lr), fst (fold feistel_round (k # ks) lr))
        = feistel_round k (fold feistel_round (rev ks)
            (snd (fold feistel_round ks (feistel_round k lr)),
             fst (fold feistel_round ks (feistel_round k lr))))"
    by simp
  also have "\<dots> = feistel_round k (snd (feistel_round k lr), fst (feistel_round k lr))"
    using Cons.IH [of "feistel_round k lr"] len by simp
  also have "\<dots> = (snd lr, fst lr)"
    using Cons.prems(1) by (rule feistel_round_undo)
  finally show ?case .
qed

lemma feistel_rounds_lengths:
  "length (fst lr) = 32 \<Longrightarrow> length (snd lr) = 32 \<Longrightarrow>
   length (fst (fold feistel_round ks lr)) = 32 \<and> length (snd (fold feistel_round ks lr)) = 32"
proof (induction ks arbitrary: lr)
  case Nil
  then show ?case by simp
next
  case (Cons k ks)
  then show ?case using feistel_round_lengths [of lr k] by simp
qed

lemma permute_permute:
  assumes "\<forall>i \<in> set t1. 1 \<le> i \<and> i \<le> length t2"
  shows "permute t1 (permute t2 xs) = map (\<lambda>i. xs ! (t2 ! (i - 1) - 1)) t1"
  using assms by (auto simp add: permute_def)

lemma IP_after_FP_index: "map (\<lambda>i. FP ! (i - 1) - 1) IP = [0..<64]"
  by (simp add: IP_def FP_def upt_rec)

lemma FP_after_IP_index: "map (\<lambda>i. IP ! (i - 1) - 1) FP = [0..<64]"
  by (simp add: IP_def FP_def upt_rec)

lemma IP_range: "\<forall>i \<in> set IP. 1 \<le> i \<and> i \<le> length FP"
  by (simp add: IP_def FP_def)

lemma FP_range: "\<forall>i \<in> set FP. 1 \<le> i \<and> i \<le> length IP"
  by (simp add: IP_def FP_def)

lemma permute_IP_FP:
  assumes "length xs = 64"
  shows "permute IP (permute FP xs) = xs"
proof -
  have "permute IP (permute FP xs) = map (\<lambda>i. xs ! (FP ! (i - 1) - 1)) IP"
    using IP_range by (rule permute_permute)
  also have "\<dots> = map (\<lambda>n. xs ! n) (map (\<lambda>i. FP ! (i - 1) - 1) IP)"
    by (simp add: comp_def)
  also have "\<dots> = map (\<lambda>n. xs ! n) [0..<length xs]"
    by (simp only: IP_after_FP_index assms)
  also have "\<dots> = xs" by (rule map_nth)
  finally show ?thesis .
qed

lemma permute_FP_IP:
  assumes "length xs = 64"
  shows "permute FP (permute IP xs) = xs"
proof -
  have "permute FP (permute IP xs) = map (\<lambda>i. xs ! (IP ! (i - 1) - 1)) FP"
    using FP_range by (rule permute_permute)
  also have "\<dots> = map (\<lambda>n. xs ! n) (map (\<lambda>i. IP ! (i - 1) - 1) FP)"
    by (simp add: comp_def)
  also have "\<dots> = map (\<lambda>n. xs ! n) [0..<length xs]"
    by (simp only: FP_after_IP_index assms)
  also have "\<dots> = xs" by (rule map_nth)
  finally show ?thesis .
qed

lemma des_crypt_undo:
  assumes "length block = 64"
  shows "des_crypt (rev ks) (des_crypt ks block) = block"
proof -
  define lr0 where "lr0 = (take 32 (permute IP block), drop 32 (permute IP block))"
  define lr where "lr = fold feistel_round ks lr0"
  have len0: "length (fst lr0) = 32" "length (snd lr0) = 32"
    by (simp_all add: lr0_def length_permute IP_def)
  have len: "length (fst lr) = 32 \<and> length (snd lr) = 32"
    unfolding lr_def using len0 by (rule feistel_rounds_lengths)
  have c: "des_crypt ks block = permute FP (snd lr @ fst lr)"
    by (simp add: des_crypt_def lr_def lr0_def Let_def)
  have "permute IP (des_crypt ks block) = snd lr @ fst lr"
    unfolding c using len by (intro permute_IP_FP) simp
  then have "des_crypt (rev ks) (des_crypt ks block)
      = (let lr' = fold feistel_round (rev ks) (snd lr, fst lr) in permute FP (snd lr' @ fst lr'))"
    using len by (simp add: des_crypt_def)
  also have "fold feistel_round (rev ks) (snd lr, fst lr) = (snd lr0, fst lr0)"
    unfolding lr_def using len0 by (rule feistel_rounds_undo)
  finally have "des_crypt (rev ks) (des_crypt ks block) = permute FP (fst lr0 @ snd lr0)"
    by simp
  also have "fst lr0 @ snd lr0 = permute IP block"
    by (simp add: lr0_def)
  finally show ?thesis using assms by (simp add: permute_FP_IP)
qed

lemma des_decrypt_encrypt:
  "length block = 64 \<Longrightarrow> des_decrypt_block key (des_encrypt_block key block) = block"
  by (simp add: des_decrypt_block_def des_encrypt_block_def des_crypt_undo)

lemma length_bits_of_byte: "length (bits_of_byte c) = 8"
  by (cases c) simp

lemma length_bytes_to_bits: "length (bytes_to_bits bs) = 8 * length bs"
  by (induction bs) (simp_all add: bytes_to_bits_def length_bits_of_byte)

lemma tripledes_one_key:
  assumes "length key = 8" and "length block = 64"
  shows "tripledes_encrypt_block (key @ key @ key) block
         = des_encrypt_block (bytes_to_bits key) block"
  using assms by (simp add: tripledes_encrypt_block_def des_decrypt_encrypt)

lemma ecb_encrypt_cong:
  assumes "\<And>block. length block = 64 \<Longrightarrow> enc1 block = enc2 block"
    and "length data mod 8 = 0"
  shows "ecb_encrypt enc1 data = ecb_encrypt enc2 data"
  using assms(2)
proof (induction "length data" arbitrary: data rule: less_induct)
  case less
  show ?case
  proof (cases "data = []")
    case True
    then show ?thesis by (simp add: ecb_encrypt.simps)
  next
    case False
    with less.prems have l8: "8 \<le> length data"
      by (cases "length data < 8") auto
    then have "length (bytes_to_bits (take 8 data)) = 64"
      by (simp add: length_bytes_to_bits)
    then have h: "enc1 (bytes_to_bits (take 8 data)) = enc2 (bytes_to_bits (take 8 data))"
      by (rule assms(1))
    have "length (drop 8 data) < length data" using l8 by simp
    moreover have "length (drop 8 data) mod 8 = 0"
    proof -
      have "(length data - 8) mod 8 = 0" using less.prems l8 by presburger
      then show ?thesis by simp
    qed
    ultimately have "ecb_encrypt enc1 (drop 8 data) = ecb_encrypt enc2 (drop 8 data)"
      by (rule less.hyps)
    with h False show ?thesis
      by (subst (1 2) ecb_encrypt.simps) simp
  qed
qed

lemma length_pkcs7_pad: "length (pkcs7_pad data) mod 8 = 0"
proof -
  have "(length data + (8 - length data mod 8)) mod 8 = 0" by presburger
  then show ?thesis by (simp add: pkcs7_pad_def)
qed

lemma key_bytes_eq:
  "(if length (take 8 key) < 8
    then take 8 key @ replicate (8 - length (take 8 key)) (CHR 0x00)
    else take 8 key) = take 8 (key @ replicate 8 (CHR 0x00))"
  by (cases "length key < 8") (auto simp add: min_def)


lemma encrypt_password_eq:
  "encrypt_password password lt = Return (des_ecb_pkcs7_base64 password lt)"
proof -
  define key8 where "key8 = take 8 (lt @ replicate 8 (CHR 0x00))"
  have l: "length key8 = 8" by (simp add: key8_def)
  then have t: "TripleDES key8 = Return (key8 @ key8 @ key8)"
    by (simp add: TripleDES_def)
  have e: "ecb_encrypt (tripledes_encrypt_block (key8 @ key8 @ key8)) (pkcs7_pad password)
        = ecb_encrypt (des_encrypt_block (bytes_to_bits key8)) (pkcs7_pad password)"
    using l by (intro ecb_encrypt_cong tripledes_one_key length_pkcs7_pad)
  have "encrypt_password password lt =
        (case TripleDES key8 of
           Raise e \<Rightarrow> Raise e
         | Return key24 \<Rightarrow>
             Return (b64encode (ecb_encrypt (tripledes_encrypt_block key24) (pkcs7_pad password))))"
    unfolding encrypt_password_def Let_def key_bytes_eq key8_def ..
  also have "\<dots> = Return (b64encode
      (ecb_encrypt (des_encrypt_block (bytes_to_bits key8)) (pkcs7_pad password)))"
    by (simp only: t e result.case)
  also have "\<dots> = Return (des_ecb_pkcs7_base64 password lt)"
    unfolding des_ecb_pkcs7_base64_def key8_def ..
  finally show ?thesis .
qed

subsection \<open>Typed requests: what a failing attempt leaves behind\<close>

lemma FLOAT_OVERFLOW_lower: "2 ^ 1023 < FLOAT_OVERFLOW"
proof -
  have "(1 :: real) < 2 - 1 / 2 ^ 53" by simp
  then have "1 * (2 :: real) ^ 1023 < (2 - 1 / 2 ^ 53) * 2 ^ 1023"
    by (intro mult_strict_right_mono) simp_all
  then show ?thesis by (simp add: FLOAT_OVERFLOW_def)
qed

lemma delay_overflows_small:
  assumes "\<bar>exponential_base config\<bar> \<le> 2" and "a \<le> 1023"
  shows "\<not> delay_overflows a config"
proof -
  have "\<bar>exponential_base config ^ nat a\<bar> = \<bar>exponential_base config\<bar> ^ nat a"
    by (simp add: power_abs)
  also have "\<dots> \<le> 2 ^ nat a" using assms(1) by (intro power_mono) simp_all
  also have "\<dots> \<le> (2 :: real) ^ 1023" using assms(2) by (intro power_increasing) simp_all
  also have "\<dots> < FLOAT_OVERFLOW" by (rule FLOAT_OVERFLOW_lower)
  finally show ?thesis by (simp add: delay_overflows_def)
qed

lemma big_base_overflows:
  "\<not> delay_overflows 0 (retry_config impatient_connection)"
  "\<not> delay_overflows 1 (retry_config impatient_connection)"
  "delay_overflows 2 (retry_config impatient_connection)"
  by (simp_all add: delay_overflows_def impatient_connection_def FLOAT_OVERFLOW_def
      RetryConfig_default_def AUFEConfig_defaults_def)

lemma calculate_delay_cases:
  "delay_overflows a config \<and> calculate_delay a config w = (Raise OverflowError, w)
   \<or> \<not> delay_overflows a config
      \<and> (\<exists>d w'. calculate_delay a config w = (Return d, w')
             \<and> http_script w' = http_script w \<and> http_log w' = http_log w
             \<and> aclose_script w' = aclose_script w \<and> aclose_calls w' = aclose_calls w)"
  by (simp add: calculate_delay_def random_random_def Let_def split: RetryStrategy.splits)

lemma send_attempt_fails:
  assumes "retryable_failure (http_script w (length (http_log w)))"
  shows "\<exists>err w1 c1. send_attempt meth u (w, c) = (Inr err, (w1, c1))
           \<and> http_script w1 = http_script w
           \<and> length (http_log w1) = Suc (length (http_log w))
           \<and> aclose_script w1 = aclose_script w
           \<and> aclose_calls w1 = aclose_calls w
           \<and> \<not> is_healthy (health c1)"
  using assms
  by (auto simp add: retryable_failure_def send_attempt_def send_http_request_def
      update_activity_def time_time_def http_send_def health_mark_error_def mark_error_def
      split: result.splits option.splits)

lemma after_loop_fails:
  assumes "\<not> is_healthy (health c)"
    and "aclose_script w (aclose_calls w) \<or> final_failure (http_script w (length (http_log w)))"
  shows "fst (send_loop config meth u [] last_exc (w, c)) = Raise AUFEConnectionError
         \<and> \<not> is_healthy (health (snd (snd (send_loop config meth u [] last_exc (w, c)))))"
proof (cases "aclose_script w (aclose_calls w)")
  case True
  with assms(1) show ?thesis
    by (simp add: should_reconnect_def reconnect_def session_aclose_def)
next
  case False
  with assms(2) have "final_failure (http_script w (length (http_log w)))" by simp
  with False assms(1) show ?thesis
    by (auto simp add: should_reconnect_def reconnect_def session_aclose_def
        send_model_request_final_attempt_def send_http_request_def update_activity_def
        time_time_def http_send_def health_mark_error_def health_mark_healthy_def
        mark_error_def mark_healthy_def final_failure_def
        split: result.splits option.splits)
qed

lemma send_loop_all_fail:
  assumes "\<forall>k < length as. retryable_failure (http_script w (length (http_log w) + k))"
    and "max_attempts config - 1 \<notin> set (butlast as)"
    and "as \<noteq> [] \<longrightarrow> last as = max_attempts config - 1"
    and "as = [] \<longrightarrow> \<not> is_healthy (health c)"
    and "aclose_script w (aclose_calls w)
         \<or> final_failure (http_script w (length (http_log w) + length as))"
  shows "fst (send_loop config meth u as last_exc (w, c)) = Raise (exhausted_error config as)
         \<and> \<not> is_healthy (health (snd (snd (send_loop config meth u as last_exc (w, c)))))"
  using assms
proof (induction as arbitrary: w c last_exc)
  case Nil
  then show ?case
    using after_loop_fails [of c w config meth u last_exc] by (simp add: exhausted_error_def)
next
  case (Cons a as)
  from Cons.prems(1) have "retryable_failure (http_script w (length (http_log w)))"
    by fastforce
  from send_attempt_fails [OF this, of meth u c]
  obtain err w1 c1 where att: "send_attempt meth u (w, c) = (Inr err, (w1, c1))"
    and w1: "http_script w1 = http_script w" "length (http_log w1) = Suc (length (http_log w))"
      "aclose_script w1 = aclose_script w" "aclose_calls w1 = aclose_calls w"
    and unhealthy: "\<not> is_healthy (health c1)"
    by blast
  show ?case
  proof (cases "a = max_attempts config - 1")
    case True
    with Cons.prems(2) have nil: "as = []" by (cases as) auto
    with Cons.prems(5) w1
    have "aclose_script w1 (aclose_calls w1)
          \<or> final_failure (http_script w1 (length (http_log w1)))"
      by simp
    with unhealthy
    have "fst (send_loop config meth u [] (Some err) (w1, c1)) = Raise AUFEConnectionError
          \<and> \<not> is_healthy (health (snd (snd (send_loop config meth u [] (Some err) (w1, c1)))))"
      by (rule after_loop_fails)
    with att True nil show ?thesis by (simp add: exhausted_error_def)
  next
    case False
    with Cons.prems(3) have more: "as \<noteq> []" by auto
    then have bl: "butlast (a # as) = a # butlast as" by simp
    from calculate_delay_cases [of a config w1]
    show ?thesis
    proof (elim disjE conjE exE)
      assume "delay_overflows a config" "calculate_delay a config w1 = (Raise OverflowError, w1)"
      with att False unhealthy bl show ?thesis
        by (simp add: exhausted_error_def)
    next
      fix d w2
      assume no: "\<not> delay_overflows a config"
        and cd: "calculate_delay a config w1 = (Return d, w2)"
        and t: "http_script w2 = http_script w1" "http_log w2 = http_log w1"
          "aclose_script w2 = aclose_script w1" "aclose_calls w2 = aclose_calls w1"
      define w3 where "w3 = asyncio_sleep d w2"
      have w3: "http_script w3 = http_script w"
        "length (http_log w3) = Suc (length (http_log w))"
        "aclose_script w3 = aclose_script w" "aclose_calls w3 = aclose_calls w"
        using w1 t by (simp_all add: w3_def asyncio_sleep_def)
      have h1: "\<forall>k < length as. retryable_failure (http_script w3 (length (http_log w3) + k))"
      proof (intro allI impI)
        fix k assume "k < length as"
        then have "Suc k < length (a # as)" by simp
        with Cons.prems(1)
        have "retryable_failure (http_script w (length (http_log w) + Suc k))" by blast
        then show "retryable_failure (http_script w3 (length (http_log w3) + k))"
          by (simp add: w3)
      qed
      have h2: "max_attempts config - 1 \<notin> set (butlast as)"
        using Cons.prems(2) by (cases as) (auto split: if_splits)
      have h2b: "as \<noteq> [] \<longrightarrow> last as = max_attempts config - 1"
        using Cons.prems(3) more by simp
      have h3: "as = [] \<longrightarrow> \<not> is_healthy (health c1)" using unhealthy by simp
      have h4: "aclose_script w3 (aclose_calls w3)
                \<or> final_failure (http_script w3 (length (http_log w3) + length as))"
        using Cons.prems(5) by (simp add: w3)
      have "fst (send_loop config meth u as (Some err) (w3, c1))
              = Raise (exhausted_error config as)
            \<and> \<not> is_healthy (health (snd (snd
                  (send_loop config meth u as (Some err) (w3, c1)))))"
        using h1 h2 h2b h3 h4 by (rule Cons.IH)
      moreover have "exhausted_error config (a # as) = exhausted_error config as"
        using no bl by (simp add: exhausted_error_def)
      ultimately show ?thesis using att False cd by (simp add: w3_def)
    qed
  qed
qed

lemma py_range_last_only:
  "n - 1 \<notin> set (butlast (py_range n))"
proof (cases "1 \<le> n")
  case True
  then obtain k where k: "nat n = Suc k" by (cases "nat n") auto
  then have "py_range n = map int [0..<k] @ [int k]" by (simp add: py_range_def)
  moreover from k have "n - 1 = int k" by linarith
  ultimately show ?thesis by auto
next
  case False
  then show ?thesis by (simp add: py_range_def)
qed

lemma length_py_range: "length (py_range n) = nat n"
  by (simp add: py_range_def)

lemma last_py_range: "py_range n \<noteq> [] \<longrightarrow> last (py_range n) = n - 1"
proof (cases "1 \<le> n")
  case True
  then obtain k where k: "nat n = Suc k" by (cases "nat n") auto
  then have "py_range n = map int [0..<k] @ [int k]" by (simp add: py_range_def)
  moreover from k have "n - 1 = int k" by linarith
  ultimately show ?thesis by simp
next
  case False
  then show ?thesis by (simp add: py_range_def)
qed

lemma send_model_request_with_retry_all_fail:
  assumes "1 \<le> max_attempts (retry_config c)"
    and "\<forall>k < nat (max_attempts (retry_config c)).
           retryable_failure (http_script w (length (http_log w) + k))"
    and "aclose_script w (aclose_calls w)
         \<or> final_failure (http_script w (length (http_log w) + nat (max_attempts (retry_config c))))"
  shows "fst (send_model_request_with_retry meth u (w, c))
           = Raise (exhausted_error (retry_config c) (py_range (max_attempts (retry_config c))))
         \<and> \<not> is_healthy (health (snd (snd (send_model_request_with_retry meth u (w, c)))))"
  unfolding send_model_request_with_retry_def snd_conv
proof (rule send_loop_all_fail)
  show "\<forall>k<length (py_range (max_attempts (retry_config c))).
          retryable_failure (http_script w (length (http_log w) + k))"
    using assms(2) by (simp add: length_py_range)
  show "max_attempts (retry_config c) - 1 \<notin> set (butlast (py_range (max_attempts (retry_config c))))"
    by (rule py_range_last_only)
  show "py_range (max_attempts (retry_config c)) \<noteq> [] \<longrightarrow>
        last (py_range (max_attempts (retry_config c))) = max_attempts (retry_config c) - 1"
    by (rule last_py_range)
  show "py_range (max_attempts (retry_config c)) = [] \<longrightarrow> \<not> is_healthy (health c)"
    using assms(1) by (simp add: py_range_pos)
  show "aclose_script w (aclose_calls w)
        \<or> final_failure (http_script w
             (length (http_log w) + length (py_range (max_attempts (retry_config c)))))"
    using assms(3) by (simp add: length_py_range)
qed

lemma get_cached_response_keeps:
  "http_script (fst (snd (get_cached_response key (w, c)))) = http_script w
   \<and> http_log (fst (snd (get_cached_response key (w, c)))) = http_log w
   \<and> aclose_script (fst (snd (get_cached_response key (w, c)))) = aclose_script w
   \<and> aclose_calls (fst (snd (get_cached_response key (w, c)))) = aclose_calls w
   \<and> health (snd (snd (get_cached_response key (w, c)))) = health c
   \<and> retry_config (snd (snd (get_cached_response key (w, c)))) = retry_config c
   \<and> logged_in (snd (snd (get_cached_response key (w, c)))) = logged_in c
   \<and> uaap_logged_in (snd (snd (get_cached_response key (w, c)))) = uaap_logged_in c"
  by (simp add: get_cached_response_def time_time_def split: option.splits prod.splits)

lemma update_activity_keeps:
  "http_script (fst (update_activity (w, c))) = http_script w
   \<and> http_log (fst (update_activity (w, c))) = http_log w
   \<and> aclose_script (fst (update_activity (w, c))) = aclose_script w
   \<and> aclose_calls (fst (update_activity (w, c))) = aclose_calls w
   \<and> health (snd (update_activity (w, c))) = health c
   \<and> retry_config (snd (update_activity (w, c))) = retry_config c
   \<and> logged_in (snd (update_activity (w, c))) = logged_in c
   \<and> uaap_logged_in (snd (update_activity (w, c))) = uaap_logged_in c"
  by (simp add: update_activity_def time_time_def)

lemma reconnect_succeeds:
  assumes "\<not> aclose_script w (aclose_calls w)"
  shows "fst (reconnect (w, c)) = Return ()
   \<and> http_script (fst (snd (reconnect (w, c)))) = http_script w
   \<and> http_log (fst (snd (reconnect (w, c)))) = http_log w
   \<and> aclose_script (fst (snd (reconnect (w, c)))) = aclose_script w
   \<and> aclose_calls (fst (snd (reconnect (w, c)))) = Suc (aclose_calls w)
   \<and> retry_config (snd (snd (reconnect (w, c)))) = retry_config c
   \<and> \<not> logged_in (snd (snd (reconnect (w, c))))
   \<and> \<not> uaap_logged_in (snd (snd (reconnect (w, c))))"
  using assms
  by (simp add: reconnect_def session_aclose_def health_mark_healthy_def time_time_def)


subsection \<open>What the retry executor returns\<close>

lemma retry_loop_cases:
  assumes "retry_loop config func as last_exc s = (r, s')"
    and "I (snd s)"
    and "\<And>s0 e s1. I (snd s0) \<Longrightarrow> func s0 = (Raise e, s1) \<Longrightarrow> I (snd s1)"
  shows "(\<exists>v s0. r = Return (Some v) \<and> I (snd s0) \<and> func s0 = (Return v, s'))
       \<or> (\<exists>e. r = Raise e \<and> I (snd s')
              \<and> (last_exc = Some e \<and> as = [] \<and> s' = s
                  \<or> (\<exists>e0 s0 s1. I (snd s0) \<and> func s0 = (Raise e0, s1) \<and> snd s1 = snd s')))
       \<or> (r = Return None \<and> last_exc = None \<and> as = [] \<and> s' = s)"
  using assms(1,2)
proof (induction as arbitrary: last_exc s)
  case Nil
  then show ?case by (cases last_exc) auto
next
  case (Cons a as)
  obtain r1 s1 where f: "func s = (r1, s1)" by (cases "func s")
  show ?case
  proof (cases r1)
    case (Return v)
    with f Cons.prems(1) have "r = Return (Some v)" "s' = s1" by auto
    with f Return Cons.prems(2)
    have "\<exists>v s0. r = Return (Some v) \<and> I (snd s0) \<and> func s0 = (Return v, s')"
      by (intro exI [of _ v] exI [of _ s]) simp
    then show ?thesis by (rule disjI1)
  next
    case (Raise e)
    with f Cons.prems(2) have I1: "I (snd s1)" by (auto intro: assms(3))
    have direct: "r = Raise x \<Longrightarrow> snd s' = snd s1 \<Longrightarrow> ?thesis" for x
    proof -
      assume a: "r = Raise x" "snd s' = snd s1"
      with I1 have "I (snd s')" by simp
      moreover have "\<exists>e0 s0 s1. I (snd s0) \<and> func s0 = (Raise e0, s1) \<and> snd s1 = snd s'"
        using f Raise Cons.prems(2) a
        by (intro exI [of _ e] exI [of _ s] exI [of _ s1]) simp
      ultimately have "\<exists>e. r = Raise e \<and> I (snd s')
              \<and> (last_exc = Some e \<and> a # as = [] \<and> s' = s
                  \<or> (\<exists>e0 s0 s1. I (snd s0) \<and> func s0 = (Raise e0, s1) \<and> snd s1 = snd s'))"
        using a by (intro exI [of _ x]) simp
      then show ?thesis by simp
    qed
    show ?thesis
    proof (cases "isinstance e (retry_on_exceptions config)")
      case False
      with f Raise Cons.prems(1) have "r = Raise e" "s' = s1" by auto
      then show ?thesis by (intro direct) simp_all
    next
      case True
      show ?thesis
      proof (cases "a = max_attempts config - 1")
        case brk: True
        with f Raise True Cons.prems(1) have "r = Raise e" "s' = s1" by auto
        then show ?thesis by (intro direct) simp_all
      next
        case False
        obtain rd wd where cd: "calculate_delay a config (fst s1) = (rd, wd)"
          by (cases "calculate_delay a config (fst s1)")
        show ?thesis
        proof (cases rd)
          case ovf: (Raise x)
          with f Raise True False cd Cons.prems(1) have "r = Raise x" "s' = (wd, snd s1)"
            by auto
          then show ?thesis by (intro direct) simp_all
        next
          case (Return d)
          define s2 where "s2 = (asyncio_sleep d wd, snd s1)"
          from f Raise True False cd Return Cons.prems(1)
          have rec: "retry_loop config func as (Some e) s2 = (r, s')"
            by (simp add: s2_def)
          have I2: "I (snd s2)" using I1 by (simp add: s2_def)
          from Cons.IH [OF rec I2]
          consider (ret) "\<exists>v s0. r = Return (Some v) \<and> I (snd s0) \<and> func s0 = (Return v, s')"
            | (last) "r = Raise e" "s' = s2"
            | (raised) "\<exists>e'. r = Raise e' \<and> I (snd s')
                 \<and> (\<exists>e0 s0 s1. I (snd s0) \<and> func s0 = (Raise e0, s1) \<and> snd s1 = snd s')"
            by blast
          then show ?thesis
          proof cases
            case ret
            then show ?thesis by (rule disjI1)
          next
            case last
            then show ?thesis by (intro direct) (simp_all add: s2_def)
          next
            case raised
            then obtain e' where "r = Raise e'" "I (snd s')"
              "\<exists>e0 s0 s1. I (snd s0) \<and> func s0 = (Raise e0, s1) \<and> snd s1 = snd s'"
              by auto
            then have "\<exists>e. r = Raise e \<and> I (snd s')
                \<and> (last_exc = Some e \<and> a # as = [] \<and> s' = s
                    \<or> (\<exists>e0 s0 s1. I (snd s0) \<and> func s0 = (Raise e0, s1) \<and> snd s1 = snd s'))"
              by (intro exI [of _ e']) simp
            then show ?thesis by simp
          qed
        qed
      qed
    qed
  qed
qed

subsection \<open>What the operations do to the two flags\<close>

lemma health_mark_error_flags:
  "logged_in (snd (health_mark_error e (w, c))) = logged_in c
   \<and> uaap_logged_in (snd (health_mark_error e (w, c))) = uaap_logged_in c"
  by (simp add: health_mark_error_def time_time_def)

lemma health_mark_healthy_flags:
  "logged_in (snd (health_mark_healthy (w, c))) = logged_in c
   \<and> uaap_logged_in (snd (health_mark_healthy (w, c))) = uaap_logged_in c"
  by (simp add: health_mark_healthy_def time_time_def)

lemma login_attempt_flags:
  assumes "login_attempt rsa_encrypt username password (w, c) = (r, (w', c'))"
  shows "uaap_logged_in c' = uaap_logged_in c
         \<and> (r = Return True \<longrightarrow> logged_in c')
         \<and> (r \<noteq> Return True \<longrightarrow> logged_in c' \<longrightarrow> logged_in c)
         \<and> ((\<exists>e. r = Raise e) \<longrightarrow> \<not> logged_in c')"
  using assms
  by (auto simp add: login_attempt_def login_except_def http_send_def Let_def
      health_mark_error_def time_time_def
      split: result.splits option.splits if_splits)

lemma uaap_login_attempt_flags:
  assumes "uaap_login_attempt username password (w, c) = (r, (w', c'))"
  shows "logged_in c' = logged_in c
         \<and> (r = Return True \<longrightarrow> uaap_logged_in c')
         \<and> (r \<noteq> Return True \<longrightarrow> uaap_logged_in c' = uaap_logged_in c)"
  using assms
  by (auto simp add: uaap_login_attempt_def uaap_except_def http_send_def Let_def
      health_mark_error_def time_time_def encrypt_password_eq
      split: result.splits option.splits if_splits)

lemma login_flags:
  assumes "login dconfig rsa_encrypt username password (w, c) = (r, (w', c'))"
  shows "uaap_logged_in c' = uaap_logged_in c
         \<and> (r = Return (Some True) \<longrightarrow> logged_in c')
         \<and> (r \<noteq> Return (Some True) \<longrightarrow> logged_in c' \<longrightarrow> logged_in c)
         \<and> ((\<exists>e. r = Raise e) \<longrightarrow> \<not> logged_in c')"
proof -
  define I where "I = (\<lambda>x :: 'a AUFEConnection.
      uaap_logged_in x = uaap_logged_in c \<and> (logged_in x \<longrightarrow> logged_in c))"
  define func where "func = (login_attempt rsa_encrypt username password
      :: 'a state \<Rightarrow> bool result \<times> 'a state)"
  have loop: "retry_loop dconfig func (py_range (max_attempts dconfig)) None
                (update_activity (w, c)) = (r, (w', c'))"
    using assms by (simp add: login_def activity_tracker_def retry_async_def func_def)
  have start: "I (snd (update_activity (w, c)))"
    by (simp add: I_def update_activity_def time_time_def)
  have step: "\<And>s0 e s1. I (snd s0) \<Longrightarrow> func s0 = (Raise e, s1) \<Longrightarrow> I (snd s1)"
  proof -
    fix s0 e s1 assume "I (snd s0)" "func s0 = (Raise e, s1)"
    then show "I (snd s1)"
      using login_attempt_flags [of rsa_encrypt username password "fst s0" "snd s0"
          "Raise e" "fst s1" "snd s1"]
      by (simp add: I_def func_def)
  qed
  have "(\<exists>v s0. r = Return (Some v) \<and> I (snd s0) \<and> func s0 = (Return v, (w', c')))
       \<or> (\<exists>e. r = Raise e \<and> I (snd (w', c'))
              \<and> (None = Some e \<and> py_range (max_attempts dconfig) = []
                    \<and> (w', c') = update_activity (w, c)
                  \<or> (\<exists>e0 s0 s1. I (snd s0) \<and> func s0 = (Raise e0, s1)
                        \<and> snd s1 = snd (w', c'))))
       \<or> (r = Return None \<and> None = (None :: exc_class option)
             \<and> py_range (max_attempts dconfig) = [] \<and> (w', c') = update_activity (w, c))"
    by (rule retry_loop_cases [where I = I, OF loop start]) (rule step)
  then consider (ret) v s0 where "r = Return (Some v)" "I (snd s0)" "func s0 = (Return v, (w', c'))"
    | (raised) e e0 s0 s1 where "r = Raise e" "I c'" "I (snd s0)" "func s0 = (Raise e0, s1)"
        "snd s1 = c'"
    | (none) "r = Return None" "(w', c') = update_activity (w, c)"
    by auto
  then show ?thesis
  proof cases
    case ret
    then show ?thesis
      using login_attempt_flags [of rsa_encrypt username password "fst s0" "snd s0"
          "Return v" w' c']
      by (auto simp add: I_def func_def)
  next
    case raised
    then show ?thesis
      using login_attempt_flags [of rsa_encrypt username password "fst s0" "snd s0"
          "Raise e0" "fst s1" "snd s1"]
      by (auto simp add: I_def func_def)
  next
    case none
    then show ?thesis by (auto simp add: update_activity_def time_time_def)
  qed
qed

lemma uaap_login_flags:
  assumes "uaap_login dconfig username password (w, c) = (r, (w', c'))"
  shows "logged_in c' = logged_in c
         \<and> (r = Return (Some True) \<longrightarrow> uaap_logged_in c')
         \<and> (r \<noteq> Return (Some True) \<longrightarrow> uaap_logged_in c' = uaap_logged_in c)"
proof -
  define I where "I = (\<lambda>x :: 'a AUFEConnection.
      logged_in x = logged_in c \<and> uaap_logged_in x = uaap_logged_in c)"
  define func where "func = (uaap_login_attempt username password
      :: 'a state \<Rightarrow> bool result \<times> 'a state)"
  have loop: "retry_loop dconfig func (py_range (max_attempts dconfig)) None
                (update_activity (w, c)) = (r, (w', c'))"
    using assms by (simp add: uaap_login_def activity_tracker_def retry_async_def func_def)
  have start: "I (snd (update_activity (w, c)))"
    by (simp add: I_def update_activity_def time_time_def)
  have step: "\<And>s0 e s1. I (snd s0) \<Longrightarrow> func s0 = (Raise e, s1) \<Longrightarrow> I (snd s1)"
  proof -
    fix s0 e s1 assume "I (snd s0)" "func s0 = (Raise e, s1)"
    then show "I (snd s1)"
      using uaap_login_attempt_flags [of username password "fst s0" "snd s0"
          "Raise e" "fst s1" "snd s1"]
      by (simp add: I_def func_def)
  qed
  have "(\<exists>v s0. r = Return (Some v) \<and> I (snd s0) \<and> func s0 = (Return v, (w', c')))
       \<or> (\<exists>e. r = Raise e \<and> I (snd (w', c'))
              \<and> (None = Some e \<and> py_range (max_attempts dconfig) = []
                    \<and> (w', c') = update_activity (w, c)
                  \<or> (\<exists>e0 s0 s1. I (snd s0) \<and> func s0 = (Raise e0, s1)
                        \<and> snd s1 = snd (w', c'))))
       \<or> (r = Return None \<and> None = (None :: exc_class option)
             \<and> py_range (max_attempts dconfig) = [] \<and> (w', c') = update_activity (w, c))"
    by (rule retry_loop_cases [where I = I, OF loop start]) (rule step)
  then consider (ret) v s0 where "r = Return (Some v)" "I (snd s0)" "func s0 = (Return v, (w', c'))"
    | (raised) e where "r = Raise e" "I c'"
    | (none) "r = Return None" "(w', c') = update_activity (w, c)"
    by auto
  then show ?thesis
  proof cases
    case ret
    then show ?thesis
      using uaap_login_attempt_flags [of username password "fst s0" "snd s0"
          "Return v" w' c']
      by (auto simp add: I_def func_def)
  next
    case raised
    then show ?thesis by (auto simp add: I_def)
  next
    case none
    then show ?thesis by (auto simp add: update_activity_def time_time_def)
  qed
qed

lemma flags_kept_or_reset_trans:
  "flags_kept_or_reset a b \<Longrightarrow> flags_kept_or_reset b c \<Longrightarrow> flags_kept_or_reset a c"
  by (auto simp add: flags_kept_or_reset_def)

lemma send_http_request_flags:
  "logged_in (snd (snd (send_http_request meth u (w, c)))) = logged_in c
   \<and> uaap_logged_in (snd (snd (send_http_request meth u (w, c)))) = uaap_logged_in c"
  by (simp add: send_http_request_def update_activity_def time_time_def http_send_def)

lemma send_attempt_flags:
  "logged_in (snd (snd (send_attempt meth u (w, c)))) = logged_in c
   \<and> uaap_logged_in (snd (snd (send_attempt meth u (w, c)))) = uaap_logged_in c"
proof -
  obtain r w1 c1 where h: "send_http_request meth u (w, c) = (r, (w1, c1))"
    by (cases "send_http_request meth u (w, c)") auto
  with send_http_request_flags [of meth u w c]
  have "logged_in c1 = logged_in c" "uaap_logged_in c1 = uaap_logged_in c" by simp_all
  with h show ?thesis
    by (auto simp add: send_attempt_def health_mark_error_def health_mark_healthy_def
        time_time_def split: result.splits option.splits)
qed

lemma final_attempt_flags:
  "logged_in (snd (snd (send_model_request_final_attempt meth u (w, c)))) = logged_in c
   \<and> uaap_logged_in (snd (snd (send_model_request_final_attempt meth u (w, c))))
       = uaap_logged_in c"
proof -
  obtain r w1 c1 where h: "send_http_request meth u (w, c) = (r, (w1, c1))"
    by (cases "send_http_request meth u (w, c)") auto
  with send_http_request_flags [of meth u w c]
  have "logged_in c1 = logged_in c" "uaap_logged_in c1 = uaap_logged_in c" by simp_all
  with h show ?thesis
    by (auto simp add: send_model_request_final_attempt_def health_mark_error_def
        health_mark_healthy_def time_time_def split: result.splits option.splits)
qed

lemma reconnect_flags:
  "flags_kept_or_reset c (snd (snd (reconnect (w, c))))"
  by (simp add: reconnect_def session_aclose_def health_mark_healthy_def time_time_def
      flags_kept_or_reset_def split: bool.splits)

lemma after_loop_flags:
  "flags_kept_or_reset c (snd (snd (send_loop config meth u [] last_exc (w, c))))"
proof (cases "should_reconnect (health c)")
  case False
  then show ?thesis by (simp add: flags_kept_or_reset_def split: option.splits)
next
  case True
  obtain r w1 c1 where rc: "reconnect (w, c) = (r, (w1, c1))"
    by (cases "reconnect (w, c)") auto
  with reconnect_flags [of c w] have k1: "flags_kept_or_reset c c1" by simp
  show ?thesis
  proof (cases r)
    case (Raise e)
    with True rc k1 show ?thesis by simp
  next
    case (Return x)
    obtain r2 w2 c2 where f: "send_model_request_final_attempt meth u (w1, c1) = (r2, (w2, c2))"
      by (cases "send_model_request_final_attempt meth u (w1, c1)") auto
    with final_attempt_flags [of meth u w1 c1]
    have "flags_kept_or_reset c1 c2" by (simp add: flags_kept_or_reset_def)
    with k1 have "flags_kept_or_reset c c2" by (rule flags_kept_or_reset_trans)
    with True rc Return f show ?thesis by (simp split: result.splits)
  qed
qed

lemma send_loop_flags:
  "flags_kept_or_reset c (snd (snd (send_loop config meth u as last_exc (w, c))))"
proof (induction as arbitrary: w c last_exc)
  case Nil
  show ?case by (rule after_loop_flags)
next
  case (Cons a as)
  obtain r w1 c1 where att: "send_attempt meth u (w, c) = (r, (w1, c1))"
    by (cases "send_attempt meth u (w, c)") auto
  with send_attempt_flags [of meth u w c]
  have k1: "flags_kept_or_reset c c1" by (simp add: flags_kept_or_reset_def)
  show ?case
  proof (cases r)
    case (Inl res)
    with att k1 show ?thesis by (cases res) simp_all
  next
    case (Inr err)
    show ?thesis
    proof (cases "a = max_attempts config - 1")
      case True
      have "flags_kept_or_reset c1
              (snd (snd (send_loop config meth u [] (Some err) (w1, c1))))"
        by (rule after_loop_flags)
      with k1 have "flags_kept_or_reset c
              (snd (snd (send_loop config meth u [] (Some err) (w1, c1))))"
        by (rule flags_kept_or_reset_trans)
      with att Inr True show ?thesis by simp
    next
      case False
      obtain rd wd where cd: "calculate_delay a config w1 = (rd, wd)"
        by (cases "calculate_delay a config w1")
      show ?thesis
      proof (cases rd)
        case (Raise x)
        with att Inr False cd k1 show ?thesis by simp
      next
        case (Return d)
        have "flags_kept_or_reset c1
                (snd (snd (send_loop config meth u as (Some err) (asyncio_sleep d wd, c1))))"
          by (rule Cons.IH)
        with k1 have "flags_kept_or_reset c
                (snd (snd (send_loop config meth u as (Some err) (asyncio_sleep d wd, c1))))"
          by (rule flags_kept_or_reset_trans)
        with att Inr False cd Return show ?thesis by simp
      qed
    qed
  qed
qed

lemma cache_response_flags:
  "logged_in (snd (cache_response key v (w, c))) = logged_in c
   \<and> uaap_logged_in (snd (cache_response key v (w, c))) = uaap_logged_in c"
  by (simp add: cache_response_def clear_cache_def time_time_def Let_def)

lemma model_request_flags:
  "flags_kept_or_reset c
     (snd (snd (model_request u meth kwargs_hash use_cache force_reconnect (w, c))))"
proof -
  define key where "key = meth @ '':'' @ u @ '':'' @ kwargs_hash"
  define s0 where "s0 = update_activity (w, c)"
  obtain hit s1 where look:
    "(if use_cache then get_cached_response key s0 else (None, s0)) = (hit, s1)"
    by (cases "if use_cache then get_cached_response key s0 else (None, s0)") auto
  have k0: "logged_in (snd s0) = logged_in c" "uaap_logged_in (snd s0) = uaap_logged_in c"
    using update_activity_keeps [of w c] by (simp_all add: s0_def)
  have k1: "logged_in (snd s1) = logged_in c" "uaap_logged_in (snd s1) = uaap_logged_in c"
    using look k0 get_cached_response_keeps [of key "fst s0" "snd s0"]
    by (auto split: if_splits)
  have body: "model_request u meth kwargs_hash use_cache force_reconnect (w, c)
      = (case (hit, s1) of
           (Some cached_result, s1) \<Rightarrow> (Return (Some cached_result), s1)
         | (None, s1) \<Rightarrow>
             (case (if force_reconnect \<or> should_reconnect (health (snd s1))
                    then reconnect s1 else (Return (), s1)) of
                (Raise e, s2) \<Rightarrow> (Raise e, s2)
              | (Return x, s2) \<Rightarrow>
                  (case send_model_request_with_retry meth u s2 of
                     (Return (Some result), s3) \<Rightarrow>
                       (Return (Some result),
                        if use_cache then cache_response key result s3 else s3)
                   | (Return None, s3) \<Rightarrow> (Return None, s3)
                   | (Raise e, s3) \<Rightarrow> (Return None, s3))))"
    unfolding model_request_def activity_tracker_def model_request_body_def Let_def
      key_def [symmetric] s0_def [symmetric] look ..
  show ?thesis
  proof (cases hit)
    case (Some v)
    with body k1 show ?thesis by (simp add: flags_kept_or_reset_def)
  next
    case None
    obtain r2 s2 where first:
      "(if force_reconnect \<or> should_reconnect (health (snd s1))
        then reconnect s1 else (Return (), s1)) = (r2, s2)"
      by (cases "if force_reconnect \<or> should_reconnect (health (snd s1))
                 then reconnect s1 else (Return (), s1)") auto
    have "flags_kept_or_reset (snd s1) (snd s2)"
      using first reconnect_flags [of "snd s1" "fst s1"]
      by (auto simp add: flags_kept_or_reset_def split: if_splits)
    with k1 have k2: "flags_kept_or_reset c (snd s2)"
      by (simp add: flags_kept_or_reset_def)
    show ?thesis
    proof (cases r2)
      case (Raise e)
      with body None first k2 show ?thesis by simp
    next
      case (Return x)
      obtain r3 s3 where inner: "send_model_request_with_retry meth u s2 = (r3, s3)"
        by (cases "send_model_request_with_retry meth u s2") auto
      have "flags_kept_or_reset (snd s2) (snd s3)"
        using inner
          send_loop_flags [of "snd s2" "retry_config (snd s2)" meth u
            "py_range (max_attempts (retry_config (snd s2)))" None "fst s2"]
        by (simp add: send_model_request_with_retry_def)
      with k2 have k3: "flags_kept_or_reset c (snd s3)"
        by (rule flags_kept_or_reset_trans)
      have k4: "\<And>v. flags_kept_or_reset c (snd (cache_response key v s3))"
        using k3 cache_response_flags [of key _ "fst s3" "snd s3"]
        by (simp add: flags_kept_or_reset_def)
      from body None first Return inner k3 k4 show ?thesis
        by (auto split: result.splits option.splits)
    qed
  qed
qed

subsection \<open>Registry lookups\<close>

lemma create_or_get_registers:
  assumes "sid \<noteq> []"
    and "create_or_get_connection cfg server sid rc (w, p) = (a, (w1, p1))"
  shows "map_of (aufe_connections p1) sid = Some a
         \<and> \<not> is_closed (heap p1 a) \<and> is_healthy (health (heap p1 a))"
proof (cases "map_of (aufe_connections p) sid")
  case None
  with assms show ?thesis
    by (auto simp add: create_or_get_connection_def new_connection_def
        AUFEConnection_init_def time_time_def init_health_def update_conv')
next
  case (Some existing)
  show ?thesis
  proof (cases "fst (is_active cfg (w, heap p existing))")
    case True
    with Some assms(2) show ?thesis
      by (auto simp add: create_or_get_connection_def is_active_def update_activity_def
          time_time_def split: if_splits prod.splits bool.splits)
  next
    case False
    with Some assms show ?thesis
      by (auto simp add: create_or_get_connection_def new_connection_def
          AUFEConnection_init_def time_time_def init_health_def update_conv'
          split: prod.splits bool.splits)
  qed
qed

lemma create_or_get_reuses:
  assumes "map_of (aufe_connections p) sid = Some a"
    and "\<not> is_closed (heap p a)" and "is_healthy (health (heap p a))"
    and "time_script w (time_calls w) - last_activity (heap p a) < ACTIVITY_TIMEOUT cfg"
  shows "create_or_get_connection cfg server sid rc (w, p)
         = (a, (w\<lparr>time_calls := Suc (Suc (time_calls w))\<rparr>,
                p\<lparr>heap := (heap p)(a := (heap p a)\<lparr>last_activity :=
                                 time_script w (Suc (time_calls w))\<rparr>)\<rparr>))"
  using assms
  by (simp add: create_or_get_connection_def is_active_def update_activity_def time_time_def)


subsection \<open>ConnectionHealth\<close>

text \<open>
  C7. A health record starts healthy with error count 0; every \<open>mark_error\<close> adds 1 to
  the error count and makes the record unhealthy; every \<open>mark_healthy\<close> makes it
  healthy with error count 0; \<open>should_reconnect\<close> is true exactly when the record is
  unhealthy or the error count is at least 3. It is true right after three consecutive
  \<open>mark_error\<close> calls and false right after \<open>mark_healthy\<close>.
\<close>

theorem health_record_lifecycle:
  "is_healthy (init_health t0) = True
   \<and> error_count (init_health t0) = 0
   \<and> error_count (mark_error e t h) = error_count h + 1
   \<and> is_healthy (mark_error e t h) = False
   \<and> is_healthy (mark_healthy t h) = True
   \<and> error_count (mark_healthy t h) = 0
   \<and> should_reconnect h = (is_healthy h = False \<or> 3 \<le> error_count h)
   \<and> should_reconnect (mark_error e3 t3 (mark_error e2 t2 (mark_error e1 t1 h))) = True
   \<and> should_reconnect (mark_healthy t h) = False"
  by (simp add: init_health_def mark_error_def mark_healthy_def should_reconnect_def)

theorem health_record_lifecycle_witness:
  "should_reconnect (init_health 0) = False
   \<and> error_count (mark_error AUFEParseError 1 (init_health 0)) = 1
   \<and> should_reconnect (mark_error RequestError 3
        (mark_error RequestError 2 (mark_error RequestError 1 (init_health 0)))) = True
   \<and> should_reconnect (mark_healthy 4 (mark_error RequestError 1 (init_health 0))) = False"
  using health_record_lifecycle [of 0 AUFEParseError 1 "init_health 0"
      RequestError 3 RequestError 2 RequestError 1]
    health_record_lifecycle [of 0 RequestError 4 "mark_error RequestError 1 (init_health 0)"
      RequestError 3 RequestError 2 RequestError 1]
  by (simp add: init_health_def)

subsection \<open>Status queries\<close>

text \<open>
  C10. \<open>login_status\<close> and \<open>uaap_login_status\<close> return true only when the flag is set
  and the health record is healthy: on a connection with both flags set, one
  \<open>mark_error\<close> on the health record makes both queries false while both flags stay
  set, and a following \<open>mark_healthy\<close> makes both true again.
\<close>

theorem status_needs_flag_and_health:
  "fst (login_status (w, c)) = (logged_in c \<and> is_healthy (health c))
   \<and> fst (uaap_login_status (w, c)) = (uaap_logged_in c \<and> is_healthy (health c))
   \<and> (logged_in c \<and> uaap_logged_in c \<longrightarrow>
        fst (login_status (health_mark_error e (w, c))) = False
        \<and> fst (uaap_login_status (health_mark_error e (w, c))) = False
        \<and> logged_in (snd (health_mark_error e (w, c)))
        \<and> uaap_logged_in (snd (health_mark_error e (w, c)))
        \<and> fst (login_status (health_mark_healthy (health_mark_error e (w, c)))) = True
        \<and> fst (uaap_login_status (health_mark_healthy (health_mark_error e (w, c)))) = True)"
  by (simp add: login_status_def uaap_login_status_def activity_tracker_def
      update_activity_def health_mark_error_def health_mark_healthy_def time_time_def
      mark_error_def mark_healthy_def)

theorem status_needs_flag_and_health_witness:
  "logged_in (fresh_connection\<lparr>logged_in := True, uaap_logged_in := True\<rparr>)
   \<and> uaap_logged_in (fresh_connection\<lparr>logged_in := True, uaap_logged_in := True\<rparr>)
   \<and> fst (login_status (scripted_world (vpn_portal []),
         fresh_connection\<lparr>logged_in := True, uaap_logged_in := True\<rparr>)) = True
   \<and> fst (login_status (health_mark_error RequestError
         (scripted_world (vpn_portal []),
          fresh_connection\<lparr>logged_in := True, uaap_logged_in := True\<rparr>))) = False
   \<and> fst (uaap_login_status (health_mark_error RequestError
         (scripted_world (vpn_portal []),
          fresh_connection\<lparr>logged_in := True, uaap_logged_in := True\<rparr>))) = False
   \<and> fst (login_status (health_mark_healthy (health_mark_error RequestError
         (scripted_world (vpn_portal []),
          fresh_connection\<lparr>logged_in := True, uaap_logged_in := True\<rparr>)))) = True"
  using status_needs_flag_and_health
    [of "scripted_world (vpn_portal [])"
        "fresh_connection\<lparr>logged_in := True, uaap_logged_in := True\<rparr>" RequestError]
  by (simp add: fresh_connection_def init_health_def)

subsection \<open>The retry executor\<close>

text \<open>
  C8. For every retry configuration with at least one attempt and every operation
  whose failure is not an instance of the retryable classes, the executor runs the
  operation exactly once and raises that failure at once: the world afterwards is the
  one the single execution left, so nothing was slept and nothing else was called,
  whatever \<open>max_attempts\<close> is.
\<close>

theorem retry_nonretryable_once:
  assumes "1 \<le> max_attempts config"
    and "func (w, c) = (Raise e, (w', c'))"
    and "\<not> isinstance e (retry_on_exceptions config)"
  shows "retry_async config (counted func) (w, (0, c)) = (Raise e, (w', (1, c')))"
  using assms by (simp add: retry_async_def py_range_pos counted_def)

theorem retry_nonretryable_once_witness:
  "retry_async ((RetryConfig_default AUFEConfig_defaults)\<lparr>max_attempts := 2\<rparr>)
     (counted (\<lambda>s. (Raise AUFELoginError :: bool result, s)))
     (scripted_world (vpn_portal []), (0, fresh_connection))
   = (Raise AUFELoginError, (scripted_world (vpn_portal []), (1, fresh_connection)))
   \<and> slept (scripted_world (vpn_portal [])) = []"
  using retry_nonretryable_once
    [of "(RetryConfig_default AUFEConfig_defaults)\<lparr>max_attempts := 2\<rparr>"
        "\<lambda>s. (Raise AUFELoginError :: bool result, s)"
        "scripted_world (vpn_portal [])" fresh_connection AUFELoginError
        "scripted_world (vpn_portal [])" fresh_connection]
  by (simp add: RetryConfig_default_def isinstance_def scripted_world_def)

subsection \<open>VPN login\<close>

text \<open>
  What \<open>login\<close> does once its first GET is answered. If the answer yields a TwfID and
  an RSA modulus and the handshake reaches the POST (the encryption step does not raise
  and the POST is answered), \<open>login\<close> returns true with the VPN flag set if and only
  if the POST body contains \<open><Result>1</Result>\<close>; without the marker it returns false
  and the flag is false. If the encryption step raises (a modulus that is not a
  hexadecimal number, say), no POST is sent: \<open>login\<close> raises \<open>AUFELoginError\<close>,
  which the decorator's retry classes do not cover, and the flag is false. If the
  TwfID or the modulus is missing, it returns false and the flag keeps the value it
  had. The two end-to-end scenarios of the specification follow.
\<close>

lemma login_answered:
  assumes "1 \<le> max_attempts dconfig"
    and "http_script w (length (http_log w)) = Return resp"
  shows "(re_search_tag ''TwfID'' (body_text resp) = None
           \<or> re_search_tag ''RSA_ENCRYPT_KEY'' (body_text resp) = None \<longrightarrow>
            fst (login dconfig rsa_encrypt username password (w, c)) = Return (Some False)
            \<and> logged_in (snd (snd (login dconfig rsa_encrypt username password (w, c))))
                = logged_in c)
       \<and> (\<forall>twfid key cipher resp2.
            re_search_tag ''TwfID'' (body_text resp) = Some twfid
            \<and> re_search_tag ''RSA_ENCRYPT_KEY'' (body_text resp) = Some key
            \<and> rsa_encrypt
                 (case re_search_tag ''RSA_ENCRYPT_EXP'' (body_text resp) of
                    Some x \<Rightarrow> x | None \<Rightarrow> ''65537'')
                 key
                 (case re_search_tag ''CSRF_RAND_CODE'' (body_text resp) of
                    Some x \<Rightarrow> password @ ''_'' @ x | None \<Rightarrow> password) = Some cipher
            \<and> http_script w (Suc (length (http_log w))) = Return resp2 \<longrightarrow>
            ((fst (login dconfig rsa_encrypt username password (w, c)) = Return (Some True)
              \<and> logged_in (snd (snd (login dconfig rsa_encrypt username password (w, c)))))
             = contains (body_text resp2) ''<Result>1</Result>'')
            \<and> (\<not> contains (body_text resp2) ''<Result>1</Result>'' \<longrightarrow>
                 fst (login dconfig rsa_encrypt username password (w, c)) = Return (Some False)
                 \<and> \<not> logged_in (snd (snd (login dconfig rsa_encrypt username password (w, c))))))
       \<and> (\<forall>twfid key.
            re_search_tag ''TwfID'' (body_text resp) = Some twfid
            \<and> re_search_tag ''RSA_ENCRYPT_KEY'' (body_text resp) = Some key
            \<and> rsa_encrypt
                 (case re_search_tag ''RSA_ENCRYPT_EXP'' (body_text resp) of
                    Some x \<Rightarrow> x | None \<Rightarrow> ''65537'')
                 key
                 (case re_search_tag ''CSRF_RAND_CODE'' (body_text resp) of
                    Some x \<Rightarrow> password @ ''_'' @ x | None \<Rightarrow> password) = None
            \<and> \<not> isinstance AUFELoginError (retry_on_exceptions dconfig) \<longrightarrow>
            fst (login dconfig rsa_encrypt username password (w, c)) = Raise AUFELoginError
            \<and> \<not> logged_in (snd (snd (login dconfig rsa_encrypt username password (w, c)))))"
  using assms
  by (auto simp add: login_def activity_tracker_def update_activity_def time_time_def
      retry_async_def py_range_pos login_attempt_def http_send_def Let_def
      login_except_def health_mark_error_def
      split: option.splits)

lemma login_end_to_end:
  "fst (login (RetryConfig_default AUFEConfig_defaults) recorded_rsa
          ''20240001'' ''secret''
          (scripted_world (vpn_portal ''<Result>1</Result>''), fresh_connection))
     = Return (Some True)
   \<and> fst (login (RetryConfig_default AUFEConfig_defaults) recorded_rsa
          ''20240001'' ''secret''
          (scripted_world (vpn_portal ''<Result>0</Result>''), fresh_connection))
     = Return (Some False)"
  using login_answered [of "RetryConfig_default AUFEConfig_defaults"
      "scripted_world (vpn_portal ''<Result>1</Result>'')"
      "page 200 portal_page"
      recorded_rsa "''20240001''" "''secret''" fresh_connection]
    login_answered [of "RetryConfig_default AUFEConfig_defaults"
      "scripted_world (vpn_portal ''<Result>0</Result>'')"
      "page 200 portal_page"
      recorded_rsa "''20240001''" "''secret''" fresh_connection]
  by (simp add: RetryConfig_default_def AUFEConfig_defaults_def scripted_world_def
      vpn_portal_def page_def vpn_portal_tokens recorded_rsa_def)



text \<open>
  C5 fails on the code where the first response carries no TwfID (or no RSA key): the
  early \<open>return False\<close> leaves \<open>_logged_in\<close> as it is, while every other failure path
  of \<open>login\<close> clears it. Here a connection logs in successfully, the portal then goes
  down and a second \<open>login\<close> is answered without a TwfID: \<open>login\<close> returns false,
  yet the VPN flag is still set and \<open>login_status\<close> still answers true.
\<close>

theorem login_missing_token_keeps_flag:
  "fst (login (RetryConfig_default AUFEConfig_defaults) recorded_rsa
          ''20240001'' ''secret'' vpn_session) = Return (Some True)
   \<and> fst (login (RetryConfig_default AUFEConfig_defaults) recorded_rsa
          ''20240001'' ''secret'' vpn_session_logged_in) = Return (Some False)
   \<and> logged_in (snd (snd (login (RetryConfig_default AUFEConfig_defaults) recorded_rsa
          ''20240001'' ''secret'' vpn_session_logged_in)))
   \<and> fst (login_status (snd (login (RetryConfig_default AUFEConfig_defaults) recorded_rsa
          ''20240001'' ''secret'' vpn_session_logged_in))) = True"
proof -
  have first: "fst (login (RetryConfig_default AUFEConfig_defaults) recorded_rsa
          ''20240001'' ''secret'' vpn_session) = Return (Some True)
      \<and> logged_in (snd vpn_session_logged_in)
      \<and> is_healthy (health (snd vpn_session_logged_in))
      \<and> length (http_log (fst vpn_session_logged_in)) = 2
      \<and> http_script (fst vpn_session_logged_in) = portal_outage"
    by (simp add: vpn_session_logged_in_def vpn_session_def AUFEConnection_init_def
      login_def activity_tracker_def update_activity_def time_time_def
      retry_async_def py_range_pos login_attempt_def http_send_def Let_def
      RetryConfig_default_def AUFEConfig_defaults_def scripted_world_def
      portal_outage_def vpn_portal_def page_def vpn_portal_tokens recorded_rsa_def
      init_health_def)
  obtain w1 c1 where p: "vpn_session_logged_in = (w1, c1)"
    by (cases vpn_session_logged_in) auto
  have k: "logged_in c1" "is_healthy (health c1)" "length (http_log w1) = 2"
    "http_script w1 = portal_outage"
    using first unfolding p by auto
  have no_token: "re_search_tag ''TwfID'' ''<html><body>Bad Gateway</body></html>'' = None"
    by (simp add: re_search_tag_def)
  have "fst (login (RetryConfig_default AUFEConfig_defaults) recorded_rsa
          ''20240001'' ''secret'' (w1, c1)) = Return (Some False)
   \<and> logged_in (snd (snd (login (RetryConfig_default AUFEConfig_defaults) recorded_rsa
          ''20240001'' ''secret'' (w1, c1))))
   \<and> fst (login_status (snd (login (RetryConfig_default AUFEConfig_defaults) recorded_rsa
          ''20240001'' ''secret'' (w1, c1)))) = True"
    using k
    by (simp add: login_def activity_tracker_def update_activity_def time_time_def
      retry_async_def py_range_pos login_attempt_def http_send_def Let_def
      RetryConfig_default_def AUFEConfig_defaults_def
      portal_outage_def page_def no_token login_status_def)
  with first show ?thesis by (simp add: p)
qed

subsection \<open>SSO password encryption\<close>

text \<open>
  C6. For every password and every key string \<open>lt\<close> (empty or not),
  \<open>_encrypt_password\<close>, which builds a TripleDES cipher from the 8-byte key, returns
  exactly the base64 encoding of the single-DES ECB encryption of the PKCS7-padded
  password bytes under the first 8 bytes of \<open>lt\<close>, padded on the right with zero
  bytes when \<open>lt\<close> is shorter.
\<close>

theorem encrypt_password_is_single_des:
  "encrypt_password password lt = Return (des_ecb_pkcs7_base64 password lt)"
  by (rule encrypt_password_eq)

subsection \<open>SSO login\<close>

text \<open>
  C4 as stated fails: a POST answered with a redirect status other than 302 is not a
  success. Here the answer is 301 with a \<open>Location\<close> header; \<open>uaap_login\<close> returns
  false and the SSO flag stays false.
\<close>

theorem uaap_login_redirect_counterexample:
  "fst (uaap_login (RetryConfig_default AUFEConfig_defaults) ''20240001'' ''secret''
         (scripted_world (cas_portal 301 (Some ''http://jwcxk2.aufe.edu.cn/'')),
          fresh_connection)) = Return (Some False)
   \<and> \<not> uaap_logged_in (snd (snd
        (uaap_login (RetryConfig_default AUFEConfig_defaults) ''20240001'' ''secret''
           (scripted_world (cas_portal 301 (Some ''http://jwcxk2.aufe.edu.cn/'')),
            fresh_connection))))"
  by (simp add: uaap_login_def activity_tracker_def update_activity_def time_time_def
      retry_async_def py_range_pos uaap_login_attempt_def http_send_def Let_def
      encrypt_password_eq RetryConfig_default_def AUFEConfig_defaults_def
      scripted_world_def cas_portal_def page_def fresh_connection_def soup_find_input_def)


text \<open>
  C4, amended. Take an SSO login whose page request is answered with status 200 and
  both hidden fields (\<open>lt\<close> with a value), and whose POST is answered. It succeeds
  exactly when the POST status is 302 and the \<open>Location\<close> header is present and not
  empty: then it stores the returned cookies, sets the SSO flag and returns true. Every
  other answer, other redirect statuses included, returns false and leaves flag and
  cookies as they were.
\<close>

theorem uaap_login_redirect:
  assumes "1 \<le> max_attempts dconfig"
    and "http_script w (length (http_log w)) = Return response"
    and "status_code response = 200"
    and "soup_find_input ''lt'' response = Some (Some lt)"
    and "soup_find_input ''execution'' response = Some execution_value"
    and "http_script w (Suc (length (http_log w))) = Return login_response"
  shows "(if status_code login_response = 302 \<and> location login_response \<noteq> None
             \<and> location login_response \<noteq> Some []
          then fst (uaap_login dconfig username password (w, c)) = Return (Some True)
               \<and> uaap_logged_in (snd (snd (uaap_login dconfig username password (w, c))))
               \<and> uaap_cookies (snd (snd (uaap_login dconfig username password (w, c))))
                   = Some (cookies login_response)
          else fst (uaap_login dconfig username password (w, c)) = Return (Some False)
               \<and> uaap_logged_in (snd (snd (uaap_login dconfig username password (w, c))))
                   = uaap_logged_in c
               \<and> uaap_cookies (snd (snd (uaap_login dconfig username password (w, c))))
                   = uaap_cookies c)"
  using assms
  by (auto simp add: uaap_login_def activity_tracker_def update_activity_def time_time_def
      retry_async_def py_range_pos uaap_login_attempt_def http_send_def Let_def
      encrypt_password_eq split: option.splits)


theorem uaap_login_redirect_witness:
  "fst (uaap_login (RetryConfig_default AUFEConfig_defaults) ''20240001'' ''secret''
         (scripted_world (cas_portal 302 (Some ''http://jwcxk2.aufe.edu.cn/'')),
          fresh_connection)) = Return (Some True)
   \<and> uaap_cookies (snd (snd
        (uaap_login (RetryConfig_default AUFEConfig_defaults) ''20240001'' ''secret''
           (scripted_world (cas_portal 302 (Some ''http://jwcxk2.aufe.edu.cn/'')),
            fresh_connection)))) = Some [(''CASTGC'', ''TGT-1'')]"
  using uaap_login_redirect [of "RetryConfig_default AUFEConfig_defaults"
      "scripted_world (cas_portal 302 (Some ''http://jwcxk2.aufe.edu.cn/''))"
      "(page 200 [])\<lparr>html_inputs :=
             [(''lt'', Some ''LT-12345-abc''), (''execution'', Some ''e1s1'')]\<rparr>"
      "''LT-12345-abc''" "Some ''e1s1''"
      "(page 302 [])\<lparr>location := Some ''http://jwcxk2.aufe.edu.cn/'',
          cookies := [(''CASTGC'', ''TGT-1'')]\<rparr>"
      "''20240001''" "''secret''" fresh_connection]
  by (simp add: RetryConfig_default_def AUFEConfig_defaults_def
      scripted_world_def cas_portal_def page_def soup_find_input_def)

subsection \<open>Typed requests\<close>

text \<open>
  C1 as stated fails: when every attempt and the reconnect-and-retry cycle fail,
  \<open>model_request\<close> does not raise. Here every request is answered with status 500,
  and the caller receives \<open>None\<close>.
\<close>

theorem model_request_exhausted_counterexample:
  "fst (model_request ''http://jwcxk2.aufe.edu.cn/main'' ''GET'' ''0'' True False
         (scripted_world failing_service, fresh_connection)) = Return None"
  by (simp add: model_request_def activity_tracker_def model_request_body_def
      update_activity_def time_time_def get_cached_response_def should_reconnect_def
      send_model_request_with_retry_def py_range_def upt_rec send_attempt_def
      send_http_request_def http_send_def health_mark_error_def mark_error_def
      calculate_delay_def delay_overflows_small random_random_def asyncio_sleep_def
      reconnect_def
      session_aclose_def health_mark_healthy_def mark_healthy_def
      send_model_request_final_attempt_def
      scripted_world_def failing_service_def page_def fresh_connection_def init_health_def
      RetryConfig_default_def AUFEConfig_defaults_def Let_def)


text \<open>
  C1, amended. Take a typed request that is not served from the cache and whose first
  reconnect, if one is due, succeeds. If every attempt of the retry loop fails and the
  reconnect-and-retry cycle after it fails too (the reconnect raises, or the final
  attempt fails), then \<open>_send_model_request_with_retry\<close> raises the typed error
  \<open>AUFEConnectionError\<close>, \<open>model_request\<close> catches it and returns \<open>None\<close> to the
  caller, and the health record is left unhealthy. The one exception to the typed
  error: when the exponential delay before one of the retries is out of the range of
  a float, the loop ends there with the \<open>OverflowError\<close> of \<open>_calculate_delay\<close>;
  \<open>model_request\<close> catches that as well, returns \<open>None\<close>, and the health record is
  unhealthy.
\<close>

theorem model_request_exhausted_returns_none:
  assumes "1 \<le> max_attempts (retry_config c)"
    and "use_cache \<longrightarrow>
           fst (get_cached_response (meth @ '':'' @ u @ '':'' @ kwargs_hash)
                  (update_activity (w, c))) = None"
    and "force_reconnect \<or> should_reconnect (health c) \<longrightarrow>
           \<not> aclose_script w (aclose_calls w)"
    and "\<forall>k < nat (max_attempts (retry_config c)).
           retryable_failure (http_script w (length (http_log w) + k))"
    and "aclose_script w
           (aclose_calls w + (if force_reconnect \<or> should_reconnect (health c) then 1 else 0))
         \<or> final_failure
             (http_script w (length (http_log w) + nat (max_attempts (retry_config c))))"
  shows "fst (model_request u meth kwargs_hash use_cache force_reconnect (w, c)) = Return None
         \<and> \<not> is_healthy (health (snd (snd
               (model_request u meth kwargs_hash use_cache force_reconnect (w, c)))))
         \<and> (\<exists>s. fst (send_model_request_with_retry meth u s)
                  = Raise (exhausted_error (retry_config c)
                             (py_range (max_attempts (retry_config c))))
                \<and> snd (model_request u meth kwargs_hash use_cache force_reconnect (w, c))
                    = snd (send_model_request_with_retry meth u s))
         \<and> (exhausted_error (retry_config c) (py_range (max_attempts (retry_config c)))
              = AUFEConnectionError
            \<or> (\<exists>k. 0 \<le> k \<and> k < max_attempts (retry_config c) - 1
                    \<and> delay_overflows k (retry_config c)))"
proof -
  define E where "E = exhausted_error (retry_config c) (py_range (max_attempts (retry_config c)))"
  define key where "key = meth @ '':'' @ u @ '':'' @ kwargs_hash"
  define s0 where "s0 = update_activity (w, c)"
  define s1 where "s1 = (if use_cache then snd (get_cached_response key s0) else s0)"
  define rc where "rc = (force_reconnect \<or> should_reconnect (health c))"
  define s2 where "s2 = (if rc then snd (reconnect s1) else s1)"
  have k0: "http_script (fst s0) = http_script w" "http_log (fst s0) = http_log w"
    "aclose_script (fst s0) = aclose_script w" "aclose_calls (fst s0) = aclose_calls w"
    "health (snd s0) = health c" "retry_config (snd s0) = retry_config c"
    using update_activity_keeps [of w c] by (simp_all add: s0_def)
  have k1: "http_script (fst s1) = http_script w" "http_log (fst s1) = http_log w"
    "aclose_script (fst s1) = aclose_script w" "aclose_calls (fst s1) = aclose_calls w"
    "health (snd s1) = health c" "retry_config (snd s1) = retry_config c"
    using k0 get_cached_response_keeps [of key "fst s0" "snd s0"]
    by (simp_all add: s1_def)
  have lookup: "(if use_cache then get_cached_response key s0 else (None, s0)) = (None, s1)"
    using assms(2) by (cases "get_cached_response key s0") (auto simp add: s1_def s0_def key_def)
  have first: "(if rc then reconnect s1 else (Return (), s1)) = (Return (), s2)"
  proof (cases rc)
    case True
    with assms(3) k1 have "\<not> aclose_script (fst s1) (aclose_calls (fst s1))"
      by (auto simp add: rc_def)
    from reconnect_succeeds [OF this, of "snd s1"] True show ?thesis
      by (cases "reconnect s1") (simp add: s2_def)
  next
    case False
    then show ?thesis by (simp add: s2_def)
  qed
  have k2c: "http_script (fst s2) = http_script w \<and> http_log (fst s2) = http_log w
    \<and> aclose_script (fst s2) = aclose_script w
    \<and> aclose_calls (fst s2) = aclose_calls w + (if rc then 1 else 0)
    \<and> retry_config (snd s2) = retry_config c"
  proof (cases rc)
    case True
    with assms(3) k1 have "\<not> aclose_script (fst s1) (aclose_calls (fst s1))"
      by (auto simp add: rc_def)
    from reconnect_succeeds [OF this, of "snd s1"] True k1 show ?thesis
      by (simp add: s2_def)
  next
    case False
    with k1 show ?thesis by (simp add: s2_def)
  qed
  then have k2: "http_script (fst s2) = http_script w" "http_log (fst s2) = http_log w"
    "aclose_script (fst s2) = aclose_script w"
    "aclose_calls (fst s2) = aclose_calls w + (if rc then 1 else 0)"
    "retry_config (snd s2) = retry_config c"
    by simp_all
  have inner: "fst (send_model_request_with_retry meth u (fst s2, snd s2))
                 = Raise (exhausted_error (retry_config (snd s2))
                            (py_range (max_attempts (retry_config (snd s2)))))
               \<and> \<not> is_healthy (health (snd (snd
                     (send_model_request_with_retry meth u (fst s2, snd s2)))))"
  proof (rule send_model_request_with_retry_all_fail)
    show "1 \<le> max_attempts (retry_config (snd s2))" using assms(1) k2 by simp
    show "\<forall>k<nat (max_attempts (retry_config (snd s2))).
            retryable_failure (http_script (fst s2) (length (http_log (fst s2)) + k))"
      using assms(4) k2 by simp
    show "aclose_script (fst s2) (aclose_calls (fst s2))
          \<or> final_failure (http_script (fst s2)
               (length (http_log (fst s2)) + nat (max_attempts (retry_config (snd s2)))))"
      using assms(5) k2 by (simp add: rc_def)
  qed
  obtain s3 where s3: "send_model_request_with_retry meth u s2 = (Raise E, s3)"
    using inner k2 by (cases "send_model_request_with_retry meth u s2") (simp add: E_def)
  have first': "(if force_reconnect \<or> should_reconnect (health (snd s1))
                 then reconnect s1 else (Return (), s1)) = (Return (), s2)"
    using first k1 by (simp add: rc_def)
  have "model_request_body u meth kwargs_hash use_cache force_reconnect s0
        = (Return None, s3)"
    unfolding model_request_body_def Let_def key_def [symmetric]
    by (simp only: lookup first' s3 prod.case option.case result.case)
  then have "model_request u meth kwargs_hash use_cache force_reconnect (w, c)
        = (Return None, s3)"
    by (simp add: model_request_def activity_tracker_def s0_def)
  moreover have "\<exists>s. fst (send_model_request_with_retry meth u s) = Raise E
                \<and> s3 = snd (send_model_request_with_retry meth u s)"
    using s3 by (intro exI [of _ s2]) simp
  moreover have "\<not> is_healthy (health (snd s3))" using inner s3 by simp
  moreover have "E = AUFEConnectionError
            \<or> (\<exists>k. 0 \<le> k \<and> k < max_attempts (retry_config c) - 1
                    \<and> delay_overflows k (retry_config c))"
  proof (cases "E = AUFEConnectionError")
    case True
    then show ?thesis by simp
  next
    case False
    then obtain k where kb: "k \<in> set (butlast (py_range (max_attempts (retry_config c))))"
      and ko: "delay_overflows k (retry_config c)"
      by (auto simp add: E_def exhausted_error_def list_ex_iff split: if_splits)
    from kb have "k \<in> set (py_range (max_attempts (retry_config c)))"
      by (rule in_set_butlastD)
    then have "0 \<le> k \<and> k < max_attempts (retry_config c)"
      by (auto simp add: py_range_def)
    moreover from kb py_range_last_only [of "max_attempts (retry_config c)"]
    have "k \<noteq> max_attempts (retry_config c) - 1" by auto
    ultimately have "0 \<le> k \<and> k < max_attempts (retry_config c) - 1" by simp
    with ko show ?thesis by blast
  qed
  ultimately show ?thesis by (simp add: E_def)
qed

theorem model_request_exhausted_returns_none_witness:
  "fst (model_request ''http://jwcxk2.aufe.edu.cn/main'' ''GET'' ''0'' True False
         (scripted_world failing_service, fresh_connection)) = Return None
   \<and> \<not> is_healthy (health (snd (snd
         (model_request ''http://jwcxk2.aufe.edu.cn/main'' ''GET'' ''0'' True False
            (scripted_world failing_service, fresh_connection)))))
   \<and> exhausted_error (retry_config fresh_connection)
         (py_range (max_attempts (retry_config fresh_connection))) = AUFEConnectionError
   \<and> fst (model_request ''http://jwcxk2.aufe.edu.cn/main'' ''GET'' ''0'' True False
         (scripted_world failing_service, impatient_connection)) = Return None
   \<and> exhausted_error (retry_config impatient_connection)
         (py_range (max_attempts (retry_config impatient_connection))) = OverflowError"
proof -
  have a: "exhausted_error (retry_config fresh_connection)
         (py_range (max_attempts (retry_config fresh_connection))) = AUFEConnectionError"
    by (simp add: exhausted_error_def fresh_connection_def RetryConfig_default_def
        AUFEConfig_defaults_def py_range_def upt_rec delay_overflows_small)
  have m: "max_attempts (retry_config impatient_connection) = 4"
    by (simp add: impatient_connection_def)
  have b: "exhausted_error (retry_config impatient_connection)
         (py_range (max_attempts (retry_config impatient_connection))) = OverflowError"
    using big_base_overflows by (simp add: m exhausted_error_def py_range_def upt_rec)
  show ?thesis
    using a b
      model_request_exhausted_returns_none
        [of fresh_connection True "''GET''" "''http://jwcxk2.aufe.edu.cn/main''" "''0''"
            "scripted_world failing_service" False]
      model_request_exhausted_returns_none
        [of impatient_connection True "''GET''" "''http://jwcxk2.aufe.edu.cn/main''" "''0''"
            "scripted_world failing_service" False]
    by (simp add: m fresh_connection_def impatient_connection_def init_health_def
        RetryConfig_default_def
        AUFEConfig_defaults_def should_reconnect_def get_cached_response_def
        update_activity_def time_time_def scripted_world_def failing_service_def page_def
        retryable_failure_def final_failure_def)
qed

subsection \<open>Failed logins\<close>

text \<open>
  C3 as stated fails: a failed VPN login does not clear the SSO flag. Here a
  connection with both flags set logs in again and the portal answers without the
  marker; \<open>login\<close> returns false, the VPN flag is cleared and the SSO flag is still
  set.
\<close>

theorem failed_login_flags_counterexample:
  "fst (login (RetryConfig_default AUFEConfig_defaults) recorded_rsa
          ''20240001'' ''secret''
          (scripted_world (vpn_portal ''<Result>0</Result>''),
           fresh_connection\<lparr>logged_in := True, uaap_logged_in := True\<rparr>))
     = Return (Some False)
   \<and> uaap_logged_in (snd (snd
        (login (RetryConfig_default AUFEConfig_defaults) recorded_rsa
           ''20240001'' ''secret''
           (scripted_world (vpn_portal ''<Result>0</Result>''),
            fresh_connection\<lparr>logged_in := True, uaap_logged_in := True\<rparr>))))"
  by (simp add: login_def activity_tracker_def update_activity_def time_time_def
      retry_async_def py_range_pos login_attempt_def http_send_def Let_def
      RetryConfig_default_def AUFEConfig_defaults_def scripted_world_def
      vpn_portal_def page_def fresh_connection_def vpn_portal_tokens recorded_rsa_def
      split: option.splits)

text \<open>
  C3, amended. A failed login, VPN or SSO, never switches a flag on: a flag that was
  false before the attempt is false afterwards, so a connection with both flags false
  keeps both false. A VPN login that fails by raising, or whose POST is answered
  without the marker, leaves the VPN flag false whatever it was before. No failed
  attempt changes the SSO flag, and a failed SSO login changes neither flag.
\<close>

theorem failed_login_flags:
  "(fst (login dconfig rsa_encrypt username password (w, c)) \<noteq> Return (Some True) \<longrightarrow>
      (\<not> logged_in c \<longrightarrow>
         \<not> logged_in (snd (snd (login dconfig rsa_encrypt username password (w, c)))))
      \<and> uaap_logged_in (snd (snd (login dconfig rsa_encrypt username password (w, c))))
          = uaap_logged_in c
      \<and> ((\<exists>e. fst (login dconfig rsa_encrypt username password (w, c)) = Raise e) \<longrightarrow>
           \<not> logged_in (snd (snd (login dconfig rsa_encrypt username password (w, c))))))
   \<and> (1 \<le> max_attempts dconfig
        \<and> http_script w (length (http_log w)) = Return resp
        \<and> re_search_tag ''TwfID'' (body_text resp) = Some twfid
        \<and> re_search_tag ''RSA_ENCRYPT_KEY'' (body_text resp) = Some key
        \<and> rsa_encrypt
             (case re_search_tag ''RSA_ENCRYPT_EXP'' (body_text resp) of
                Some x \<Rightarrow> x | None \<Rightarrow> ''65537'')
             key
             (case re_search_tag ''CSRF_RAND_CODE'' (body_text resp) of
                Some x \<Rightarrow> password @ ''_'' @ x | None \<Rightarrow> password) = Some cipher
        \<and> http_script w (Suc (length (http_log w))) = Return resp2
        \<and> \<not> contains (body_text resp2) ''<Result>1</Result>'' \<longrightarrow>
        \<not> logged_in (snd (snd (login dconfig rsa_encrypt username password (w, c)))))
   \<and> (fst (uaap_login dconfig2 username2 password2 (w2, c2)) \<noteq> Return (Some True) \<longrightarrow>
        logged_in (snd (snd (uaap_login dconfig2 username2 password2 (w2, c2)))) = logged_in c2
        \<and> uaap_logged_in (snd (snd (uaap_login dconfig2 username2 password2 (w2, c2))))
            = uaap_logged_in c2)"
proof (intro conjI)
  obtain r w' c' where l: "login dconfig rsa_encrypt username password (w, c) = (r, (w', c'))"
    by (cases "login dconfig rsa_encrypt username password (w, c)") auto
  from login_flags [OF l] l
  show "fst (login dconfig rsa_encrypt username password (w, c)) \<noteq> Return (Some True) \<longrightarrow>
      (\<not> logged_in c \<longrightarrow>
         \<not> logged_in (snd (snd (login dconfig rsa_encrypt username password (w, c)))))
      \<and> uaap_logged_in (snd (snd (login dconfig rsa_encrypt username password (w, c))))
          = uaap_logged_in c
      \<and> ((\<exists>e. fst (login dconfig rsa_encrypt username password (w, c)) = Raise e) \<longrightarrow>
           \<not> logged_in (snd (snd (login dconfig rsa_encrypt username password (w, c)))))"
    by auto
next
  show "1 \<le> max_attempts dconfig
        \<and> http_script w (length (http_log w)) = Return resp
        \<and> re_search_tag ''TwfID'' (body_text resp) = Some twfid
        \<and> re_search_tag ''RSA_ENCRYPT_KEY'' (body_text resp) = Some key
        \<and> rsa_encrypt
             (case re_search_tag ''RSA_ENCRYPT_EXP'' (body_text resp) of
                Some x \<Rightarrow> x | None \<Rightarrow> ''65537'')
             key
             (case re_search_tag ''CSRF_RAND_CODE'' (body_text resp) of
                Some x \<Rightarrow> password @ ''_'' @ x | None \<Rightarrow> password) = Some cipher
        \<and> http_script w (Suc (length (http_log w))) = Return resp2
        \<and> \<not> contains (body_text resp2) ''<Result>1</Result>'' \<longrightarrow>
        \<not> logged_in (snd (snd (login dconfig rsa_encrypt username password (w, c))))"
    by (auto simp add: login_def activity_tracker_def update_activity_def time_time_def
        retry_async_def py_range_pos login_attempt_def http_send_def Let_def
        split: option.splits)
next
  obtain r w' c' where l: "uaap_login dconfig2 username2 password2 (w2, c2) = (r, (w', c'))"
    by (cases "uaap_login dconfig2 username2 password2 (w2, c2)") auto
  from uaap_login_flags [OF l] l
  show "fst (uaap_login dconfig2 username2 password2 (w2, c2)) \<noteq> Return (Some True) \<longrightarrow>
        logged_in (snd (snd (uaap_login dconfig2 username2 password2 (w2, c2)))) = logged_in c2
        \<and> uaap_logged_in (snd (snd (uaap_login dconfig2 username2 password2 (w2, c2))))
            = uaap_logged_in c2"
    by auto
qed

theorem failed_login_flags_witness:
  "fst (login (RetryConfig_default AUFEConfig_defaults) recorded_rsa
          ''20240001'' ''secret''
          (scripted_world (vpn_portal ''<Result>0</Result>''), fresh_connection))
     \<noteq> Return (Some True)
   \<and> \<not> logged_in (snd (snd
        (login (RetryConfig_default AUFEConfig_defaults) recorded_rsa
           ''20240001'' ''secret''
           (scripted_world (vpn_portal ''<Result>0</Result>''), fresh_connection))))
   \<and> \<not> uaap_logged_in (snd (snd
        (login (RetryConfig_default AUFEConfig_defaults) recorded_rsa
           ''20240001'' ''secret''
           (scripted_world (vpn_portal ''<Result>0</Result>''), fresh_connection))))
   \<and> fst (uaap_login (RetryConfig_default AUFEConfig_defaults) ''20240001'' ''secret''
         (scripted_world (cas_portal 200 None), fresh_connection)) \<noteq> Return (Some True)
   \<and> \<not> uaap_logged_in (snd (snd
        (uaap_login (RetryConfig_default AUFEConfig_defaults) ''20240001'' ''secret''
           (scripted_world (cas_portal 200 None), fresh_connection))))"
proof -
  have a: "fst (login (RetryConfig_default AUFEConfig_defaults) recorded_rsa
          ''20240001'' ''secret''
          (scripted_world (vpn_portal ''<Result>0</Result>''), fresh_connection))
     \<noteq> Return (Some True)"
    by (simp add: login_def activity_tracker_def update_activity_def time_time_def
      retry_async_def py_range_pos login_attempt_def http_send_def Let_def
      RetryConfig_default_def AUFEConfig_defaults_def scripted_world_def
      vpn_portal_def page_def fresh_connection_def vpn_portal_tokens recorded_rsa_def
      split: option.splits)
  have b: "fst (uaap_login (RetryConfig_default AUFEConfig_defaults) ''20240001'' ''secret''
         (scripted_world (cas_portal 200 None), fresh_connection)) \<noteq> Return (Some True)"
    by (simp add: uaap_login_def activity_tracker_def update_activity_def time_time_def
      retry_async_def py_range_pos uaap_login_attempt_def http_send_def Let_def
      encrypt_password_eq RetryConfig_default_def AUFEConfig_defaults_def
      scripted_world_def cas_portal_def page_def fresh_connection_def soup_find_input_def)
  have c: "\<not> logged_in fresh_connection" "\<not> uaap_logged_in fresh_connection"
    by (simp_all add: fresh_connection_def)
  show ?thesis
    using a b c failed_login_flags
      [of "RetryConfig_default AUFEConfig_defaults" recorded_rsa
          "''20240001''" "''secret''"
          "scripted_world (vpn_portal ''<Result>0</Result>'')" fresh_connection
          _ _ _ _ _
          "RetryConfig_default AUFEConfig_defaults" "''20240001''" "''secret''"
          "scripted_world (cas_portal 200 None)" fresh_connection]
    by simp
qed

subsection \<open>The invariant of the two flags\<close>

text \<open>
  C2 as stated fails: \<open>uaap_login\<close> does not look at the VPN flag. Here a connection
  that never logged in to the VPN runs a successful SSO login; the state is reachable,
  the SSO flag is set and the VPN flag is not.
\<close>

theorem auth_invariant_counterexample:
  "reachable (snd (uaap_login (RetryConfig_default AUFEConfig_defaults)
                ''20240001'' ''secret''
                (AUFEConnection_init AUFEConfig_defaults ''vpn.aufe.edu.cn''
                   (Some ''20240001'') None
                   (scripted_world (cas_portal 302 (Some ''http://jwcxk2.aufe.edu.cn/''))))))
   \<and> \<not> auth_invariant (snd (snd (uaap_login (RetryConfig_default AUFEConfig_defaults)
                ''20240001'' ''secret''
                (AUFEConnection_init AUFEConfig_defaults ''vpn.aufe.edu.cn''
                   (Some ''20240001'') None
                   (scripted_world (cas_portal 302 (Some ''http://jwcxk2.aufe.edu.cn/'')))))))"
proof
  show "reachable (snd (uaap_login (RetryConfig_default AUFEConfig_defaults)
                ''20240001'' ''secret''
                (AUFEConnection_init AUFEConfig_defaults ''vpn.aufe.edu.cn''
                   (Some ''20240001'') None
                   (scripted_world (cas_portal 302 (Some ''http://jwcxk2.aufe.edu.cn/''))))))"
    by (intro reach_uaap_login reach_init)
  show "\<not> auth_invariant (snd (snd (uaap_login (RetryConfig_default AUFEConfig_defaults)
                ''20240001'' ''secret''
                (AUFEConnection_init AUFEConfig_defaults ''vpn.aufe.edu.cn''
                   (Some ''20240001'') None
                   (scripted_world (cas_portal 302 (Some ''http://jwcxk2.aufe.edu.cn/'')))))))"
    by (simp add: auth_invariant_def AUFEConnection_init_def
      uaap_login_def activity_tracker_def update_activity_def time_time_def
      retry_async_def py_range_pos uaap_login_attempt_def http_send_def Let_def
      encrypt_password_eq RetryConfig_default_def AUFEConfig_defaults_def
      scripted_world_def cas_portal_def page_def soup_find_input_def)
qed

text \<open>
  C2, amended. The invariant holds in every state reachable by logins, SSO logins,
  typed requests and reconnects in which an SSO login is started only while the VPN
  flag is set, and a VPN login started while the SSO flag is set succeeds. It holds in
  the initial state and after every successful reconnect, which clears both flags.
\<close>

theorem auth_invariant_in_order:
  "reachable_in_order s \<Longrightarrow> auth_invariant (snd s)"
proof (induction rule: reachable_in_order.induct)
  case (order_init cfg server sid rc w)
  show ?case
    by (simp add: auth_invariant_def AUFEConnection_init_def time_time_def)
next
  case (order_world w c w')
  then show ?case by simp
next
  case (order_login s dconfig rsa_encrypt username password)
  obtain r w' c' where l:
    "login dconfig rsa_encrypt username password (fst s, snd s) = (r, (w', c'))"
    by (cases "login dconfig rsa_encrypt username password (fst s, snd s)") auto
  from login_flags [OF l] l order_login show ?case
    by (auto simp add: auth_invariant_def)
next
  case (order_uaap_login s dconfig username password)
  obtain r w' c' where l:
    "uaap_login dconfig username password (fst s, snd s) = (r, (w', c'))"
    by (cases "uaap_login dconfig username password (fst s, snd s)") auto
  from uaap_login_flags [OF l] l order_uaap_login show ?case
    by (auto simp add: auth_invariant_def)
next
  case (order_model_request s u meth kwargs_hash use_cache force_reconnect)
  from model_request_flags [of "snd s" u meth kwargs_hash use_cache force_reconnect "fst s"]
    order_model_request
  show ?case by (auto simp add: auth_invariant_def flags_kept_or_reset_def)
next
  case (order_reconnect s)
  from reconnect_flags [of "snd s" "fst s"] order_reconnect
  show ?case by (auto simp add: auth_invariant_def flags_kept_or_reset_def)
qed

theorem auth_invariant_in_order_witness:
  "reachable_in_order after_sso_login
   \<and> auth_invariant (snd after_sso_login)
   \<and> uaap_logged_in (snd after_sso_login)"
proof -
  have s1: "logged_in (snd after_vpn_login)
            \<and> length (http_log (fst after_vpn_login)) = 2
            \<and> http_script (fst after_vpn_login) = campus_network
            \<and> uaap_login_url (snd after_vpn_login) = UAAP_LOGIN_URL AUFEConfig_defaults"
    by (simp add: after_vpn_login_def new_session_def AUFEConnection_init_def
      login_def activity_tracker_def update_activity_def time_time_def
      retry_async_def py_range_pos login_attempt_def http_send_def Let_def
      RetryConfig_default_def AUFEConfig_defaults_def scripted_world_def
      campus_network_def vpn_portal_def page_def vpn_portal_tokens recorded_rsa_def
      split: option.splits)
  have r0: "reachable_in_order new_session"
    unfolding new_session_def by (rule order_init)
  have "\<not> uaap_logged_in (snd new_session)"
    by (simp add: new_session_def AUFEConnection_init_def time_time_def)
  with r0 have r1: "reachable_in_order after_vpn_login"
    unfolding after_vpn_login_def by (intro order_login) simp_all
  from r1 s1 have r2: "reachable_in_order after_sso_login"
    unfolding after_sso_login_def by (intro order_uaap_login) simp_all
  obtain w1 c1 where p: "after_vpn_login = (w1, c1)" by (cases after_vpn_login) auto
  have k: "length (http_log w1) = 2" "http_script w1 = campus_network"
    using s1 unfolding p by auto
  have "uaap_logged_in (snd after_sso_login)"
    using k
    by (simp add: after_sso_login_def p
      uaap_login_def activity_tracker_def update_activity_def time_time_def
      retry_async_def py_range_pos uaap_login_attempt_def http_send_def Let_def
      encrypt_password_eq RetryConfig_default_def AUFEConfig_defaults_def
      campus_network_def cas_portal_def page_def soup_find_input_def)
  with r2 auth_invariant_in_order [OF r2] show ?thesis by simp
qed

subsection \<open>The connection registry\<close>

text \<open>
  C9 as stated fails for the empty identity: the constructor registers a connection
  only \<open>if student_id:\<close>, so two successive calls for the empty string build two
  connections.
\<close>

theorem create_or_get_twice_counterexample:
  "fst (create_or_get_connection AUFEConfig_defaults ''vpn.aufe.edu.cn'' [] None
          (snd (create_or_get_connection AUFEConfig_defaults ''vpn.aufe.edu.cn'' [] None
                  (scripted_world failing_service, empty_pool))))
   \<noteq> fst (create_or_get_connection AUFEConfig_defaults ''vpn.aufe.edu.cn'' [] None
            (scripted_world failing_service, empty_pool))"
  by (simp add: create_or_get_connection_def new_connection_def AUFEConnection_init_def
      time_time_def empty_pool_def scripted_world_def)

text \<open>
  C9, amended. For every identity other than the empty string, a call of
  \<open>create_or_get_connection\<close> that directly follows another one for the same
  identity, within the inactivity window, returns the same connection instance and
  only touches its activity timestamp: the registry, the other objects and the pending
  tasks are as the first call left them.
\<close>

theorem create_or_get_twice:
  assumes "sid \<noteq> []"
    and "create_or_get_connection cfg server sid rc (w, p) = (a, (w1, p1))"
    and "time_script w' (time_calls w') - last_activity (heap p1 a) < ACTIVITY_TIMEOUT cfg"
  shows "create_or_get_connection cfg server' sid rc' (w', p1)
         = (a, (w'\<lparr>time_calls := Suc (Suc (time_calls w'))\<rparr>,
                p1\<lparr>heap := (heap p1)(a := (heap p1 a)\<lparr>last_activity :=
                                  time_script w' (Suc (time_calls w'))\<rparr>)\<rparr>))"
proof -
  from create_or_get_registers [OF assms(1,2)]
  have "map_of (aufe_connections p1) sid = Some a" "\<not> is_closed (heap p1 a)"
    "is_healthy (health (heap p1 a))"
    by simp_all
  then show ?thesis using assms(3) by (rule create_or_get_reuses)
qed

theorem create_or_get_twice_witness:
  "fst (create_or_get_connection AUFEConfig_defaults ''vpn.aufe.edu.cn'' ''20240001'' None
          (snd (create_or_get_connection AUFEConfig_defaults ''vpn.aufe.edu.cn''
                  ''20240001'' None (scripted_world failing_service, empty_pool))))
   = fst (create_or_get_connection AUFEConfig_defaults ''vpn.aufe.edu.cn'' ''20240001'' None
            (scripted_world failing_service, empty_pool))"
proof -
  define first where "first = create_or_get_connection AUFEConfig_defaults
      ''vpn.aufe.edu.cn'' ''20240001'' None (scripted_world failing_service, empty_pool)"
  have e: "first = (fst first, (fst (snd first), snd (snd first)))" by simp
  have t: "time_script (fst (snd first)) (time_calls (fst (snd first)))
           - last_activity (heap (snd (snd first)) (fst first))
           < ACTIVITY_TIMEOUT AUFEConfig_defaults"
    by (simp add: first_def create_or_get_connection_def new_connection_def
        AUFEConnection_init_def time_time_def empty_pool_def scripted_world_def
        AUFEConfig_defaults_def)
  have "''20240001'' \<noteq> []" by simp
  from create_or_get_twice [OF this e [unfolded first_def] t [unfolded first_def],
      of "''vpn.aufe.edu.cn''" None]
  show ?thesis by simp
qed

end
